theory Spec2Isabelle
  imports Main "HOL-Library.Sublist" "HOL-Library.Char_ord" "HOL-Library.List_Lexorder"
begin

section \<open>Azure availability-set backend of the cloud provider (azure\_standard.go)\<close>

text \<open>
  A shallow embedding of \<^verbatim>\<open>vendor/k8s.io/legacy-cloud-providers/azure/azure_standard.go\<close>.
  Go strings are byte sequences: a \<^typ>\<open>string\<close> is the list of the bytes, \<open>length\<close> is
  Go's \<^verbatim>\<open>len\<close>. A pointer that the source dereferences or compares with \<^verbatim>\<open>nil\<close> is an
  \<open>option\<close>; dereferencing \<open>None\<close> is the panic \<open>NilPointerDereference\<close>. Every function
  that can fail or panic returns \<open>error + 'a\<close>, with \<open>Inl\<close> for the failure. The receivers
  and the services and nodes that the functions are called with are not \<^verbatim>\<open>nil\<close>.
\<close>

subsection \<open>Errors\<close>

datatype error =
    NilPointerDereference              \<comment> \<open>panic: nil pointer dereference\<close>
  | IndexOutOfRange                    \<comment> \<open>panic: index out of range\<close>
  | SliceBoundsOutOfRange              \<comment> \<open>panic: slice bounds out of range\<close>
  | ResourceNameMissing                \<comment> \<open>"resource name was missing from identifier"\<close>
  | PriorityExhausted                  \<comment> \<open>"securityGroup priorities are exhausted"\<close>
  | NoPrimaryNic                       \<comment> \<open>"failed to find a primary nic for the vm"\<close>
  | IPConfigurationsNil                \<comment> \<open>"nic.IPConfigurations for nic ... is nil"\<close>
  | NoPrimaryIPConfig                  \<comment> \<open>"failed to determine the primary ipconfig"\<close>
  | NoIPConfigForFamily bool           \<comment> \<open>"failed to determine the ipconfig(IPv6=...)"\<close>
  | ErrNotInVMSet                      \<comment> \<open>errNotInVMSet: "vm is not in the vmset"\<close>
  | NicIDNoResourceGroup string        \<comment> \<open>"error of extracting resourceGroup from nicID"\<close>
  | NodeHasNoAvailabilitySet string    \<comment> \<open>"Node (...) - has no availability sets"\<close>
  | NoGroupsFound nat                  \<comment> \<open>"No availability sets found for nodes, node count(...)"\<close>
  | EmptyLoadBalancerMode              \<comment> \<open>"service annotation for LoadBalancerMode is empty, ..."\<close>
  | UnknownVMGroup string              \<comment> \<open>"availability set (...) - not found"\<close>
  | MalformedIdentifier string         \<comment> \<open>a backend pool identifier that fits no template\<close>
  | External string                    \<comment> \<open>a failure returned by an external collaborator\<close>

subsection \<open>The functions of Go's strings package that the file calls\<close>

text \<open>
  Case mapping is modelled on ASCII: \<open>A\<close> to \<open>Z\<close> and \<open>a\<close> to \<open>z\<close> are mapped onto each
  other and every other byte is left as it is. On ASCII strings this is what
  \<^verbatim>\<open>strings.ToLower\<close>, \<^verbatim>\<open>strings.ToUpper\<close> and \<^verbatim>\<open>strings.EqualFold\<close> compute; the names
  and identifiers of Azure resources and of Kubernetes objects that reach this file are
  ASCII. (On other input Go maps Unicode code points.)
\<close>

definition lower_byte :: "char \<Rightarrow> char" where
  "lower_byte c =
     (if CHR ''A'' \<le> c \<and> c \<le> CHR ''Z'' then char_of (of_char c + (32::nat)) else c)"

definition upper_byte :: "char \<Rightarrow> char" where
  "upper_byte c =
     (if CHR ''a'' \<le> c \<and> c \<le> CHR ''z'' then char_of (of_char c - (32::nat)) else c)"

definition ToLower :: "string \<Rightarrow> string" where
  "ToLower s = map lower_byte s"

definition ToUpper :: "string \<Rightarrow> string" where
  "ToUpper s = map upper_byte s"

text \<open>\<^verbatim>\<open>strings.EqualFold\<close>: equality up to the case of the letters.\<close>

definition EqualFold :: "string \<Rightarrow> string \<Rightarrow> bool" where
  "EqualFold s t = (ToLower s = ToLower t)"

definition HasPrefix :: "string \<Rightarrow> string \<Rightarrow> bool" where
  "HasPrefix s p = (length p \<le> length s \<and> take (length p) s = p)"

text \<open>
  \<^verbatim>\<open>utf8.DecodeRuneInString\<close>, the width only: the number of bytes of the first UTF-8
  sequence of a non-empty string, 1 for a byte that starts no valid sequence.
\<close>

definition rune_width :: "string \<Rightarrow> nat" where
  "rune_width s =
     (case s of
        [] \<Rightarrow> 0
      | c0 # _ \<Rightarrow>
          (let b0 = (of_char c0 :: nat) in
           if b0 < 0xC2 \<or> 0xF5 \<le> b0 then 1
           else
             (let sz = (if b0 < 0xE0 then 2 else if b0 < 0xF0 then 3 else (4::nat));
                  lo = (if b0 = 0xE0 then 0xA0 else if b0 = 0xF0 then 0x90 else (0x80::nat));
                  hi = (if b0 = 0xED then 0x9F else if b0 = 0xF4 then 0x8F else (0xBF::nat))
              in if length s < sz then 1
                 else if (of_char (s ! 1) :: nat) < lo \<or> hi < (of_char (s ! 1) :: nat) then 1
                 else if sz \<le> 2 then 2
                 else if (of_char (s ! 2) :: nat) < 0x80 \<or> 0xBF < (of_char (s ! 2) :: nat) then 1
                 else if sz \<le> 3 then 3
                 else if (of_char (s ! 3) :: nat) < 0x80 \<or> 0xBF < (of_char (s ! 3) :: nat) then 1
                 else 4)))"

lemma rune_width_pos: "s \<noteq> [] \<Longrightarrow> 0 < rune_width s"
  by (cases s) (simp_all add: rune_width_def Let_def)

text \<open>\<^verbatim>\<open>strings.Split(s, "")\<close>: one part for each UTF-8 sequence, no part for \<open>""\<close>.\<close>

function explode :: "string \<Rightarrow> string list" where
  "explode s =
     (if s = [] then []
      else if drop (rune_width s) s = [] then [s]
      else take (rune_width s) s # explode (drop (rune_width s) s))"
  by pat_completeness auto
termination
  by (relation "measure length") (auto simp: rune_width_pos)

declare explode.simps [simp del]

text \<open>
  \<^verbatim>\<open>strings.Split(s, sep)\<close> for a non-empty separator \<open>c # cs\<close>: the text is cut at each
  occurrence of the separator, found from the left and not overlapping; \<open>acc\<close> is the
  part read so far.
\<close>

fun genSplit :: "char \<Rightarrow> string \<Rightarrow> string \<Rightarrow> string \<Rightarrow> string list" where
  "genSplit c cs acc [] = [acc]"
| "genSplit c cs acc (x # xs) =
     (if x = c \<and> length cs \<le> length xs \<and> take (length cs) xs = cs
      then acc # genSplit c cs [] (drop (length cs) xs)
      else genSplit c cs (acc @ [x]) xs)"

definition Split :: "string \<Rightarrow> string \<Rightarrow> string list" where
  "Split s sep = (case sep of [] \<Rightarrow> explode s | c # cs \<Rightarrow> genSplit c cs [] s)"

text \<open>\<^verbatim>\<open>fmt.Sprintf("%d", n)\<close> for an integer.\<close>

definition digit_char :: "nat \<Rightarrow> char" where
  "digit_char n = ''0123456789'' ! n"

function decimal :: "nat \<Rightarrow> string" where
  "decimal n = (if n < 10 then [digit_char n] else decimal (n div 10) @ [digit_char (n mod 10)])"
  by pat_completeness auto
termination
  by (relation "measure id") auto

declare decimal.simps [simp del]

definition format_d :: "int \<Rightarrow> string" where
  "format_d i = (if i < 0 then CHR ''-'' # decimal (nat (- i)) else decimal (nat i))"

text \<open>A slice expression \<^verbatim>\<open>s[:k]\<close>: it panics unless \<open>0 \<le> k \<le> len(s)\<close>.\<close>

definition slice_to :: "string \<Rightarrow> int \<Rightarrow> error + string" where
  "slice_to s k =
     (if k < 0 \<or> int (length s) < k then Inl SliceBoundsOutOfRange else Inr (take (nat k) s))"

subsection \<open>Data model\<close>

text \<open>
  The types of the Kubernetes API and of the Azure SDK, with the fields that the file
  reads. \<^verbatim>\<open>v1.Service\<close> and \<^verbatim>\<open>v1.Node\<close>:
\<close>

record Service =
  svc_Namespace :: string
  svc_Name :: string
  svc_ClusterIP :: string                    \<comment> \<open>\<^verbatim>\<open>service.Spec.ClusterIP\<close>\<close>
  svc_Annotations :: "string \<rightharpoonup> string"

record Node =
  node_Name :: string
  node_Labels :: "string \<rightharpoonup> string"

text \<open>\<^verbatim>\<open>compute.VirtualMachine\<close> with its availability set and network profile.\<close>

record SubResource =
  sub_ID :: "string option"

record NetworkInterfaceReference =
  ref_ID :: "string option"
  ref_Primary :: "bool option"

record NetworkProfile =
  np_NetworkInterfaces :: "NetworkInterfaceReference list option"

record VirtualMachine =
  vm_Name :: "string option"
  vm_AvailabilitySet :: "SubResource option"
  vm_NetworkProfile :: "NetworkProfile option"

text \<open>
  \<^verbatim>\<open>network.Interface\<close>, its IP configurations and their backend pool memberships;
  \<^verbatim>\<open>network.FrontendIPConfiguration\<close>.
\<close>

record BackendAddressPool =
  pool_ID :: "string option"

record InterfaceIPConfiguration =
  ipc_Primary :: "bool option"
  ipc_PrivateIPAddress :: "string option"
  ipc_PrivateIPAddressVersion :: string      \<comment> \<open>\<^verbatim>\<open>network.IPVersion\<close>: "IPv4" or "IPv6"\<close>
  ipc_LoadBalancerBackendAddressPools :: "BackendAddressPool list option"

record Interface =
  nic_Name :: "string option"
  nic_ProvisioningState :: "string option"
  nic_IPConfigurations :: "InterfaceIPConfiguration list option"

record FrontendIPConfiguration =
  fip_Name :: "string option"

text \<open>
  \<^verbatim>\<open>Cloud\<close>: the configuration that the file reads, and what the file calls but does not
  define: methods of \<^verbatim>\<open>Cloud\<close> and package functions that live in other files, the clients
  of the Azure API, and library functions. Each of them is a field, so every theorem
  holds for whatever they compute.
\<close>

record Cloud =
  SubscriptionID :: string
  ResourceGroup :: string
  PrimaryAvailabilitySetName :: string       \<comment> \<open>\<^verbatim>\<open>Config.PrimaryAvailabilitySetName\<close>\<close>
  ipv6DualStackEnabled :: bool
  useStandardLoadBalancer :: bool            \<comment> \<open>\<^verbatim>\<open>az.useStandardLoadBalancer()\<close>\<close>
  GetLoadBalancerName :: "string \<Rightarrow> Service \<Rightarrow> string"
                                             \<comment> \<open>\<^verbatim>\<open>az.GetLoadBalancerName(ctx, clusterName, service)\<close>\<close>
  ListVirtualMachines :: "string \<Rightarrow> error + VirtualMachine list"
  GetVirtualMachineWithRetry :: "string \<Rightarrow> error + VirtualMachine"
  GetNodeResourceGroup :: "string \<Rightarrow> error + string"
  InterfacesClient_Get :: "string \<Rightarrow> string \<Rightarrow> error + Interface"
                                             \<comment> \<open>\<^verbatim>\<open>InterfacesClient.Get(ctx, resourceGroup, name, "")\<close>\<close>
  CreateOrUpdateInterface :: "Service \<Rightarrow> Interface \<Rightarrow> error option"
                                             \<comment> \<open>the error returned, \<open>None\<close> for \<^verbatim>\<open>nil\<close>\<close>
  subnet :: "Service \<Rightarrow> string option"      \<comment> \<open>\<^verbatim>\<open>subnet(service)\<close>, a \<^verbatim>\<open>*string\<close>\<close>
  getServiceLoadBalancerMode :: "Service \<Rightarrow> bool \<times> bool \<times> string list"
                                             \<comment> \<open>\<^verbatim>\<open>(hasMode, isAuto, vmSetNames)\<close>\<close>
  mapNodeNameToVMName :: "string \<Rightarrow> string"
  IsIPv6String :: "string \<Rightarrow> bool"          \<comment> \<open>\<^verbatim>\<open>utilnet.IsIPv6String\<close>\<close>
  nicResourceGroupRE_FindStringSubmatch :: "string \<Rightarrow> string list"
                                             \<comment> \<open>\<^verbatim>\<open>nicResourceGroupRE.FindStringSubmatch\<close>\<close>
  isBackendPoolOnSameLB :: "string \<Rightarrow> string list \<Rightarrow> error + bool \<times> string"
                                             \<comment> \<open>\<^verbatim>\<open>(isSameLB, oldLBName, err)\<close>\<close>

subsection \<open>Identifier builder\<close>

text \<open>
  \<^verbatim>\<open>machineIDTemplate\<close> is
  \<^verbatim>\<open>"/subscriptions/%s/resourceGroups/%s/providers/Microsoft.Compute/virtualMachines/%s"\<close>.
\<close>

definition getStandardMachineID :: "string \<Rightarrow> string \<Rightarrow> string \<Rightarrow> string" where
  "getStandardMachineID subscriptionID resourceGroup machineName =
     ''/subscriptions/'' @ subscriptionID @ ''/resourceGroups/'' @ ToLower resourceGroup @
     ''/providers/Microsoft.Compute/virtualMachines/'' @ machineName"

text \<open>
  \<^verbatim>\<open>availabilitySetIDTemplate\<close> is
  \<^verbatim>\<open>"/subscriptions/%s/resourceGroups/%s/providers/Microsoft.Compute/availabilitySets/%s"\<close>.
\<close>

definition getAvailabilitySetID :: "Cloud \<Rightarrow> string \<Rightarrow> string \<Rightarrow> string" where
  "getAvailabilitySetID az resourceGroup availabilitySetName =
     ''/subscriptions/'' @ SubscriptionID az @ ''/resourceGroups/'' @ resourceGroup @
     ''/providers/Microsoft.Compute/availabilitySets/'' @ availabilitySetName"

text \<open>
  \<^verbatim>\<open>getLastSegment\<close>: \<^verbatim>\<open>parts[len(parts)-1]\<close> is out of range when \<^verbatim>\<open>strings.Split\<close>
  returns no part, which it does for an empty separator and an empty identifier only.
\<close>

definition getLastSegment :: "string \<Rightarrow> string \<Rightarrow> error + string" where
  "getLastSegment ID separator =
     (let parts = Split ID separator in
      if length parts = 0 then Inl IndexOutOfRange
      else
        (let name = parts ! (length parts - 1) in
         if length name = 0 then Inl ResourceNameMissing else Inr name))"

subsection \<open>Naming policy\<close>

definition getBackendPoolName :: "(string \<Rightarrow> bool) \<Rightarrow> string \<Rightarrow> Service \<Rightarrow> string" where
  "getBackendPoolName isIPv6String clusterName service =
     (let IPv6 = isIPv6String (svc_ClusterIP service) in
      if IPv6 then clusterName @ ''-IPv6'' else clusterName)"

definition getRulePrefix :: "Cloud \<Rightarrow> Service \<Rightarrow> string" where
  "getRulePrefix az service = GetLoadBalancerName az [] service"

definition loadBalancerRuleNameMaxLength :: nat where
  "loadBalancerRuleNameMaxLength = 80"

text \<open>
  The local \<^verbatim>\<open>ruleName\<close> of \<^verbatim>\<open>getLoadBalancerRuleName\<close>, the name of a rule of a service
  without subnet: \<^verbatim>\<open>fmt.Sprintf("%s-%s-%d", prefix, protocol, port)\<close>.
\<close>

definition ruleNameWithoutSubnet :: "Cloud \<Rightarrow> Service \<Rightarrow> string \<Rightarrow> int \<Rightarrow> string" where
  "ruleNameWithoutSubnet az service protocol port =
     getRulePrefix az service @ ''-'' @ protocol @ ''-'' @ format_d port"

text \<open>
  \<^verbatim>\<open>getLoadBalancerRuleName\<close>; \<open>protocol\<close> is a \<^verbatim>\<open>v1.Protocol\<close>, a string, and \<open>port\<close> the
  value of an \<^verbatim>\<open>int32\<close>.
\<close>

definition getLoadBalancerRuleName :: "Cloud \<Rightarrow> Service \<Rightarrow> string \<Rightarrow> int \<Rightarrow> error + string" where
  "getLoadBalancerRuleName az service protocol port =
     (let prefix = getRulePrefix az service;
          ruleName = prefix @ ''-'' @ protocol @ ''-'' @ format_d port
      in case subnet az service of
           None \<Rightarrow> Inr ruleName
         | Some subnetSegment \<Rightarrow>
             (case (if length ruleName + length subnetSegment + 1 > loadBalancerRuleNameMaxLength
                    then slice_to subnetSegment
                           (int loadBalancerRuleNameMaxLength - int (length ruleName) - 1)
                    else Inr subnetSegment) of
                Inl e \<Rightarrow> Inl e
              | Inr subnetSegment' \<Rightarrow>
                  Inr (prefix @ ''-'' @ subnetSegment' @ ''-'' @ protocol @ ''-'' @ format_d port)))"

definition serviceOwnsRule :: "Cloud \<Rightarrow> Service \<Rightarrow> string \<Rightarrow> bool" where
  "serviceOwnsRule az service rule =
     (let prefix = getRulePrefix az service in HasPrefix (ToUpper rule) (ToUpper prefix))"

definition serviceOwnsFrontendIP :: "Cloud \<Rightarrow> FrontendIPConfiguration \<Rightarrow> Service \<Rightarrow> error + bool" where
  "serviceOwnsFrontendIP az fip service =
     (let baseName = GetLoadBalancerName az [] service in
      case fip_Name fip of
        None \<Rightarrow> Inl NilPointerDereference
      | Some name \<Rightarrow> Inr (HasPrefix name baseName))"

subsection \<open>VM-set resolver\<close>

definition nodeLabelRole :: string where
  "nodeLabelRole = ''kubernetes.io/role''"

definition isMasterNode :: "Node \<Rightarrow> bool" where
  "isMasterNode node =
     (case node_Labels node nodeLabelRole of
        Some val \<Rightarrow> val = ''master''
      | None \<Rightarrow> False)"

text \<open>
  The first loop of \<^verbatim>\<open>getAgentPoolAvailabiliySets\<close>, which fills the map
  \<^verbatim>\<open>vmNameToAvailabilitySetID\<close> from the virtual machines of the resource group.
\<close>

fun vmNameToAvailabilitySetID ::
  "VirtualMachine list \<Rightarrow> (string \<rightharpoonup> string) \<Rightarrow> error + (string \<rightharpoonup> string)" where
  "vmNameToAvailabilitySetID [] m = Inr m"
| "vmNameToAvailabilitySetID (vm # vms) m =
     (case vm_AvailabilitySet vm of
        None \<Rightarrow> vmNameToAvailabilitySetID vms m
      | Some availabilitySet \<Rightarrow>
          (case vm_Name vm of
             None \<Rightarrow> Inl NilPointerDereference
           | Some name \<Rightarrow>
               (case sub_ID availabilitySet of
                  None \<Rightarrow> Inl NilPointerDereference
                | Some asID \<Rightarrow> vmNameToAvailabilitySetID vms (m(name \<mapsto> asID)))))"

text \<open>
  The second loop, over the nodes. \<open>availabilitySetIDs\<close> is the set
  \<^verbatim>\<open>availabilitySetIDs := sets.NewString()\<close>: the loop asks it
  (\<^verbatim>\<open>availabilitySetIDs.Has(asID)\<close>) and the source has no call that inserts into it, so
  it is handed on as it is. \<open>agentPoolAvailabilitySets\<close> is the list built so far.
\<close>

fun agentPoolLoop ::
  "(string \<rightharpoonup> string) \<Rightarrow> string set \<Rightarrow> Node list \<Rightarrow> string list \<Rightarrow> error + string list" where
  "agentPoolLoop m availabilitySetIDs [] agentPoolAvailabilitySets = Inr agentPoolAvailabilitySets"
| "agentPoolLoop m availabilitySetIDs (node # nodes) agentPoolAvailabilitySets =
     (let nodeName = node_Name node in
      if isMasterNode node then agentPoolLoop m availabilitySetIDs nodes agentPoolAvailabilitySets
      else
        (case m nodeName of
           None \<Rightarrow> Inl (NodeHasNoAvailabilitySet nodeName)
         | Some asID \<Rightarrow>
             if asID \<in> availabilitySetIDs
             then agentPoolLoop m availabilitySetIDs nodes agentPoolAvailabilitySets
             else
               (case getLastSegment asID ''/'' of
                  Inl err \<Rightarrow> Inl err
                | Inr asName \<Rightarrow>
                    agentPoolLoop m availabilitySetIDs nodes
                      (agentPoolAvailabilitySets @ [ToLower asName]))))"

definition getAgentPoolAvailabiliySets :: "Cloud \<Rightarrow> Node list \<Rightarrow> error + string list" where
  "getAgentPoolAvailabiliySets as nodes =
     (case ListVirtualMachines as (ResourceGroup as) of
        Inl err \<Rightarrow> Inl err
      | Inr vms \<Rightarrow>
          (case vmNameToAvailabilitySetID vms Map.empty of
             Inl err \<Rightarrow> Inl err
           | Inr m \<Rightarrow> agentPoolLoop m {} nodes []))"

text \<open>
  The validation of \<^verbatim>\<open>GetVMSetNames\<close>. The inner loop looks for the first availability set
  that equals the service's entry up to case.
\<close>

fun findAvailabilitySet :: "string list \<Rightarrow> string \<Rightarrow> string option" where
  "findAvailabilitySet [] name = None"
| "findAvailabilitySet (availabilitySetName # rest) name =
     (if EqualFold availabilitySetName name then Some availabilitySetName
      else findAvailabilitySet rest name)"

text \<open>
  The outer loop, over the entries of the service. \<open>found\<close> is the variable
  \<^verbatim>\<open>var found bool\<close>, declared before the loop: a match sets it and nothing resets it.
  \<open>checked\<close> holds the entries already passed, a matched entry replaced by the name of the
  availability set (\<^verbatim>\<open>serviceAvailabilitySetNames[sasx] = (*availabilitySetNames)[asx]\<close>).
\<close>

fun validateAvailabilitySets ::
  "string list \<Rightarrow> bool \<Rightarrow> string list \<Rightarrow> string list \<Rightarrow> error + string list" where
  "validateAvailabilitySets availabilitySetNames found [] checked = Inr checked"
| "validateAvailabilitySets availabilitySetNames found (name # rest) checked =
     (case findAvailabilitySet availabilitySetNames name of
        Some availabilitySetName \<Rightarrow>
          validateAvailabilitySets availabilitySetNames True rest (checked @ [availabilitySetName])
      | None \<Rightarrow>
          if \<not> found then Inl (UnknownVMGroup name)
          else validateAvailabilitySets availabilitySetNames found rest (checked @ [name]))"

text \<open>\<^verbatim>\<open>sort.Strings\<close> is \<open>sort\<close> on the bytewise lexicographic order of strings.\<close>

definition GetVMSetNames :: "Cloud \<Rightarrow> Service \<Rightarrow> Node list \<Rightarrow> error + string list" where
  "GetVMSetNames as service nodes =
     (case getServiceLoadBalancerMode as service of
        (hasMode, isAuto, serviceAvailabilitySetNames) \<Rightarrow>
          if \<not> hasMode then Inr [PrimaryAvailabilitySetName as]
          else
            (case getAgentPoolAvailabiliySets as nodes of
               Inl err \<Rightarrow> Inl err
             | Inr availabilitySetNames \<Rightarrow>
                 if length availabilitySetNames = 0 then Inl (NoGroupsFound (length nodes))
                 else
                   (let availabilitySetNames = sort availabilitySetNames in
                    if \<not> isAuto then
                      if length serviceAvailabilitySetNames = 0 then Inl EmptyLoadBalancerMode
                      else validateAvailabilitySets availabilitySetNames False
                             serviceAvailabilitySetNames []
                    else Inr availabilitySetNames)))"

subsection \<open>The primary interface of a node\<close>

text \<open>
  \<^verbatim>\<open>getPrimaryInterfaceID\<close>. The loop over the interface references yields the identifier
  of the first reference marked primary, \<open>None\<close> when it runs to its end.
\<close>

fun findPrimaryInterfaceRef :: "NetworkInterfaceReference list \<Rightarrow> error + string option" where
  "findPrimaryInterfaceRef [] = Inr None"
| "findPrimaryInterfaceRef (ref # refs) =
     (case ref_Primary ref of
        None \<Rightarrow> Inl NilPointerDereference
      | Some primary \<Rightarrow>
          if primary then
            (case ref_ID ref of None \<Rightarrow> Inl NilPointerDereference | Some ID \<Rightarrow> Inr (Some ID))
          else findPrimaryInterfaceRef refs)"

definition getPrimaryInterfaceID :: "VirtualMachine \<Rightarrow> error + string" where
  "getPrimaryInterfaceID machine =
     (case vm_NetworkProfile machine of
        None \<Rightarrow> Inl NilPointerDereference
      | Some networkProfile \<Rightarrow>
          (case np_NetworkInterfaces networkProfile of
             None \<Rightarrow> Inl NilPointerDereference
           | Some refs \<Rightarrow>
               if length refs = 1 then
                 (case ref_ID (refs ! 0) of None \<Rightarrow> Inl NilPointerDereference | Some ID \<Rightarrow> Inr ID)
               else
                 (case findPrimaryInterfaceRef refs of
                    Inl err \<Rightarrow> Inl err
                  | Inr (Some ID) \<Rightarrow> Inr ID
                  | Inr None \<Rightarrow>
                      (case vm_Name machine of
                         None \<Rightarrow> Inl NilPointerDereference
                       | Some name \<Rightarrow> Inl NoPrimaryNic))))"

text \<open>
  \<^verbatim>\<open>getPrimaryIPConfig\<close> and \<^verbatim>\<open>getIPConfigByIPFamily\<close> return a pointer to an IP
  configuration of the interface. The model returns the position of the configuration in
  \<^verbatim>\<open>nic.IPConfigurations\<close> together with the configuration: the SDK's
  \<^verbatim>\<open>InterfaceIPConfiguration\<close> holds its properties by reference, so what
  \<^verbatim>\<open>EnsureHostInPool\<close> later writes through the pointer is seen in \<^verbatim>\<open>nic\<close> at that position.
\<close>

fun findPrimaryIPConfig ::
  "InterfaceIPConfiguration list \<Rightarrow> nat \<Rightarrow> error + (nat \<times> InterfaceIPConfiguration) option" where
  "findPrimaryIPConfig [] i = Inr None"
| "findPrimaryIPConfig (ref # refs) i =
     (case ipc_Primary ref of
        None \<Rightarrow> Inl NilPointerDereference
      | Some primary \<Rightarrow> if primary then Inr (Some (i, ref)) else findPrimaryIPConfig refs (i + 1))"

definition getPrimaryIPConfig :: "Interface \<Rightarrow> error + nat \<times> InterfaceIPConfiguration" where
  "getPrimaryIPConfig nic =
     (case nic_IPConfigurations nic of
        None \<Rightarrow>
          (case nic_Name nic of
             None \<Rightarrow> Inl NilPointerDereference
           | Some name \<Rightarrow> Inl IPConfigurationsNil)
      | Some configs \<Rightarrow>
          if length configs = 1 then Inr (0, configs ! 0)
          else
            (case findPrimaryIPConfig configs 0 of
               Inl err \<Rightarrow> Inl err
             | Inr (Some found) \<Rightarrow> Inr found
             | Inr None \<Rightarrow>
                 (case nic_Name nic of
                    None \<Rightarrow> Inl NilPointerDereference
                  | Some name \<Rightarrow> Inl NoPrimaryIPConfig)))"

fun findIPConfigByVersion ::
  "InterfaceIPConfiguration list \<Rightarrow> string \<Rightarrow> nat \<Rightarrow> (nat \<times> InterfaceIPConfiguration) option" where
  "findIPConfigByVersion [] ipVersion i = None"
| "findIPConfigByVersion (ref # refs) ipVersion i =
     (if ipc_PrivateIPAddress ref \<noteq> None \<and> ipc_PrivateIPAddressVersion ref = ipVersion
      then Some (i, ref)
      else findIPConfigByVersion refs ipVersion (i + 1))"

definition getIPConfigByIPFamily ::
  "Interface \<Rightarrow> bool \<Rightarrow> error + nat \<times> InterfaceIPConfiguration" where
  "getIPConfigByIPFamily nic IPv6 =
     (case nic_IPConfigurations nic of
        None \<Rightarrow>
          (case nic_Name nic of
             None \<Rightarrow> Inl NilPointerDereference
           | Some name \<Rightarrow> Inl IPConfigurationsNil)
      | Some configs \<Rightarrow>
          (let ipVersion = (if IPv6 then ''IPv6'' else ''IPv4'') in
           case findIPConfigByVersion configs ipVersion 0 of
             Some found \<Rightarrow> Inr found
           | None \<Rightarrow>
               (case nic_Name nic of
                  None \<Rightarrow> Inl NilPointerDereference
                | Some name \<Rightarrow> Inl (NoIPConfigForFamily IPv6))))"

definition extractResourceGroupByNicID :: "Cloud \<Rightarrow> string \<Rightarrow> error + string" where
  "extractResourceGroupByNicID az nicID =
     (let matches = nicResourceGroupRE_FindStringSubmatch az nicID in
      if length matches \<noteq> 2 then Inl (NicIDNoResourceGroup nicID) else Inr (matches ! 1))"

text \<open>
  The check of the availability set in \<^verbatim>\<open>getPrimaryInterfaceWithVMSet\<close>: \<open>Inr True\<close> when
  the machine is not in the availability set \<open>vmSetName\<close>.
\<close>

definition notInAvailabilitySet :: "Cloud \<Rightarrow> VirtualMachine \<Rightarrow> string \<Rightarrow> string \<Rightarrow> error + bool" where
  "notInAvailabilitySet as machine nodeResourceGroup vmSetName =
     (let expectedAvailabilitySetName = getAvailabilitySetID as nodeResourceGroup vmSetName in
      case vm_AvailabilitySet machine of
        None \<Rightarrow> Inr True
      | Some availabilitySet \<Rightarrow>
          (case sub_ID availabilitySet of
             None \<Rightarrow> Inl NilPointerDereference
           | Some ID \<Rightarrow> Inr (\<not> EqualFold ID expectedAvailabilitySetName)))"

definition getPrimaryInterfaceWithVMSet :: "Cloud \<Rightarrow> string \<Rightarrow> string \<Rightarrow> error + Interface" where
  "getPrimaryInterfaceWithVMSet as nodeName vmSetName =
     (case GetVirtualMachineWithRetry as nodeName of
        Inl err \<Rightarrow> Inl err
      | Inr machine \<Rightarrow>
     (case getPrimaryInterfaceID machine of
        Inl err \<Rightarrow> Inl err
      | Inr primaryNicID \<Rightarrow>
     (case getLastSegment primaryNicID ''/'' of
        Inl err \<Rightarrow> Inl err
      | Inr nicName \<Rightarrow>
     (case GetNodeResourceGroup as nodeName of
        Inl err \<Rightarrow> Inl err
      | Inr nodeResourceGroup \<Rightarrow>
     (case (if vmSetName \<noteq> [] \<and> \<not> useStandardLoadBalancer as
            then notInAvailabilitySet as machine nodeResourceGroup vmSetName
            else Inr False) of
        Inl err \<Rightarrow> Inl err
      | Inr True \<Rightarrow> Inl ErrNotInVMSet
      | Inr False \<Rightarrow>
     (case extractResourceGroupByNicID as primaryNicID of
        Inl err \<Rightarrow> Inl err
      | Inr nicResourceGroup \<Rightarrow> InterfacesClient_Get as nicResourceGroup nicName))))))"

subsection \<open>Backend pool reconciler\<close>

text \<open>
  Modelled from the spec: the parent load balancer of a backend pool, which
  \<^verbatim>\<open>isBackendPoolOnSameLB\<close> (a function of the package that is defined in another file)
  reads off a pool identifier. Section 4.1 has backend pool identifiers "nested under a
  load-balancer parent name", built from one template; the template is
  \<^verbatim>\<open>backendPoolIDTemplate\<close>,
  \<^verbatim>\<open>"/subscriptions/%s/resourceGroups/%s/providers/Microsoft.Network/loadBalancers/%s/backendAddressPools/%s"\<close>.
  An identifier of another form has no parent.
\<close>

definition backendPoolLoadBalancer :: "string \<Rightarrow> string option" where
  "backendPoolLoadBalancer backendPoolID =
     (let parts = Split backendPoolID ''/'' in
      if length parts = 11 \<and> parts ! 0 = [] \<and> parts ! 1 = ''subscriptions'' \<and>
         parts ! 3 = ''resourceGroups'' \<and> parts ! 5 = ''providers'' \<and>
         parts ! 6 = ''Microsoft.Network'' \<and> parts ! 7 = ''loadBalancers'' \<and>
         parts ! 9 = ''backendAddressPools''
      then Some (parts ! 8) else None)"

text \<open>
  Modelled from the spec: \<^verbatim>\<open>isBackendPoolOnSameLB(newBackendPoolID, existingBackendPools)\<close>,
  which is defined in another file of the package; its result is
  \<^verbatim>\<open>(isSameLB, oldLBName, err)\<close>. Section 4.5, step 5: "if any existing membership belongs
  to a different load balancer than the target pool's parent load balancer, skip this
  node". An identifier without parent load balancer is the failure \<open>MalformedIdentifier\<close>
  of section 7. \<open>EnsureHostInPool\<close> below takes the function from the field
  \<open>isBackendPoolOnSameLB\<close> of the cloud; this definition is what the specification says
  of it.
\<close>

fun existingPoolsOnLB :: "string \<Rightarrow> string list \<Rightarrow> error + bool \<times> string" where
  "existingPoolsOnLB newLBName [] = Inr (True, [])"
| "existingPoolsOnLB newLBName (backendPool # existingBackendPools) =
     (case backendPoolLoadBalancer backendPool of
        None \<Rightarrow> Inl (MalformedIdentifier backendPool)
      | Some lbName \<Rightarrow>
          if lbName \<noteq> newLBName then Inr (False, lbName)
          else existingPoolsOnLB newLBName existingBackendPools)"

definition isBackendPoolOnSameLB_spec :: "string \<Rightarrow> string list \<Rightarrow> error + bool \<times> string" where
  "isBackendPoolOnSameLB_spec newBackendPoolID existingBackendPools =
     (case backendPoolLoadBalancer newBackendPoolID of
        None \<Rightarrow> Inl (MalformedIdentifier newBackendPoolID)
      | Some newLBName \<Rightarrow> existingPoolsOnLB newLBName existingBackendPools)"

definition nicFailedState :: string where
  "nicFailedState = ''Failed''"

text \<open>
  The choice of the IP configuration in \<^verbatim>\<open>EnsureHostInPool\<close>: the primary one when dual
  stack is off and the service is not IPv6, the first one of the service's IP family
  otherwise.
\<close>

definition primaryIPConfigOf ::
  "Cloud \<Rightarrow> Service \<Rightarrow> Interface \<Rightarrow> error + nat \<times> InterfaceIPConfiguration" where
  "primaryIPConfigOf as service nic =
     (let ipv6 = IsIPv6String as (svc_ClusterIP service) in
      if \<not> ipv6DualStackEnabled as \<and> \<not> ipv6 then getPrimaryIPConfig nic
      else getIPConfigByIPFamily nic ipv6)"

text \<open>
  The first loop over the memberships: is \<open>backendPoolID\<close> among them, up to case? It
  dereferences the identifier of every membership it visits.
\<close>

fun backendPoolFound :: "string \<Rightarrow> BackendAddressPool list \<Rightarrow> error + bool" where
  "backendPoolFound backendPoolID [] = Inr False"
| "backendPoolFound backendPoolID (existingPool # pools) =
     (case pool_ID existingPool of
        None \<Rightarrow> Inl NilPointerDereference
      | Some ID \<Rightarrow>
          if EqualFold backendPoolID ID then Inr True else backendPoolFound backendPoolID pools)"

text \<open>The second loop: the identifiers of the memberships that have one.\<close>

fun backendPoolIDs :: "BackendAddressPool list \<Rightarrow> string list" where
  "backendPoolIDs [] = []"
| "backendPoolIDs (pool # pools) =
     (case pool_ID pool of
        None \<Rightarrow> backendPoolIDs pools
      | Some ID \<Rightarrow> ID # backendPoolIDs pools)"

text \<open>
  The write \<^verbatim>\<open>primaryIPConfig.LoadBalancerBackendAddressPools = &newBackendPools\<close>, as it
  shows in \<^verbatim>\<open>nic\<close>.
\<close>

definition setBackendPools :: "Interface \<Rightarrow> nat \<Rightarrow> BackendAddressPool list \<Rightarrow> Interface" where
  "setBackendPools nic i newBackendPools =
     nic\<lparr>nic_IPConfigurations :=
           map_option
             (\<lambda>configs. configs[i := (configs ! i)
                \<lparr>ipc_LoadBalancerBackendAddressPools := Some newBackendPools\<rparr>])
             (nic_IPConfigurations nic)\<rparr>"

text \<open>
  \<^verbatim>\<open>EnsureHostInPool\<close>. Its first four results are constants, so the model returns the
  error, \<open>Inr ()\<close> for \<^verbatim>\<open>nil\<close>, and before it the effect of the call: the interfaces passed
  to \<^verbatim>\<open>CreateOrUpdateInterface\<close>, in order. The calls of \<^verbatim>\<open>klog\<close> are kept where their
  arguments dereference a pointer.
\<close>

definition EnsureHostInPool ::
  "Cloud \<Rightarrow> Service \<Rightarrow> string \<Rightarrow> string \<Rightarrow> string \<Rightarrow> bool \<Rightarrow> Interface list \<times> (error + unit)" where
  "EnsureHostInPool as service nodeName backendPoolID vmSetName isInternal =
     (let vmName = mapNodeNameToVMName as nodeName in
      case getPrimaryInterfaceWithVMSet as vmName vmSetName of
        Inl err \<Rightarrow> if err = ErrNotInVMSet then ([], Inr ()) else ([], Inl err)
      | Inr nic \<Rightarrow>
          if nic_ProvisioningState nic = Some nicFailedState then
            (case nic_Name nic of
               None \<Rightarrow> ([], Inl NilPointerDereference)
             | Some nicName \<Rightarrow> ([], Inr ()))
          else
            (case primaryIPConfigOf as service nic of
               Inl err \<Rightarrow> ([], Inl err)
             | Inr (i, primaryIPConfig) \<Rightarrow>
                 (let newBackendPools =
                        (case ipc_LoadBalancerBackendAddressPools primaryIPConfig of
                           None \<Rightarrow> []
                         | Some pools \<Rightarrow> pools)
                  in case backendPoolFound backendPoolID newBackendPools of
                       Inl err \<Rightarrow> ([], Inl err)
                     | Inr True \<Rightarrow> ([], Inr ())
                     | Inr False \<Rightarrow>
                         (case (if useStandardLoadBalancer as \<and> length newBackendPools > 0
                                then isBackendPoolOnSameLB as backendPoolID
                                       (backendPoolIDs newBackendPools)
                                else Inr (True, [])) of
                            Inl err \<Rightarrow> ([], Inl err)
                          | Inr (isSameLB, oldLBName) \<Rightarrow>
                              if \<not> isSameLB then ([], Inr ())
                              else
                                (let nic' = setBackendPools nic i
                                       (newBackendPools @ [\<lparr>pool_ID = Some backendPoolID\<rparr>])
                                 in case nic_Name nic of
                                      None \<Rightarrow> ([], Inl NilPointerDereference)
                                    | Some nicName \<Rightarrow>
                                        (case CreateOrUpdateInterface as service nic' of
                                           Some err \<Rightarrow> ([nic'], Inl err)
                                         | None \<Rightarrow> ([nic'], Inr ())))))))"

subsection \<open>An example configuration\<close>

text \<open>
  A cloud whose collaborators answer nothing, and a service, for the concrete instances
  of the theorems below; an instance replaces the fields it needs.
\<close>

definition exampleService :: Service where
  "exampleService =
     \<lparr>svc_Namespace = ''default'', svc_Name = ''web'', svc_ClusterIP = ''10.0.0.10'',
      svc_Annotations = Map.empty\<rparr>"

definition exampleCloud :: Cloud where
  "exampleCloud =
     \<lparr>SubscriptionID = ''sub'',
      ResourceGroup = ''rg'',
      PrimaryAvailabilitySetName = ''as-a'',
      ipv6DualStackEnabled = False,
      useStandardLoadBalancer = True,
      GetLoadBalancerName = (\<lambda>clusterName service. ''a0123456789abcdef0123456789abcde''),
      ListVirtualMachines = (\<lambda>resourceGroup. Inr []),
      GetVirtualMachineWithRetry = (\<lambda>name. Inl (External ''instance not found'')),
      GetNodeResourceGroup = (\<lambda>name. Inr ''rg''),
      InterfacesClient_Get = (\<lambda>resourceGroup name. Inl (External ''not found'')),
      CreateOrUpdateInterface = (\<lambda>service nic. None),
      subnet = (\<lambda>service. None),
      getServiceLoadBalancerMode = (\<lambda>service. (False, False, [])),
      mapNodeNameToVMName = (\<lambda>nodeName. nodeName),
      IsIPv6String = (\<lambda>ip. CHR '':'' \<in> set ip),
      nicResourceGroupRE_FindStringSubmatch = (\<lambda>nicID. [nicID, ''rg'']),
      isBackendPoolOnSameLB = isBackendPoolOnSameLB_spec\<rparr>"

text \<open>
  A node without labels, and a virtual machine of the resource group \<open>rg\<close> that belongs
  to an availability set and has one network interface.
\<close>

definition exampleNode :: "string \<Rightarrow> Node" where
  "exampleNode name = \<lparr>node_Name = name, node_Labels = Map.empty\<rparr>"

definition exampleVM :: "string \<Rightarrow> string \<Rightarrow> VirtualMachine" where
  "exampleVM name availabilitySetName =
     \<lparr>vm_Name = Some name,
      vm_AvailabilitySet = Some \<lparr>sub_ID = Some
        (''/subscriptions/sub/resourceGroups/rg/providers/Microsoft.Compute/availabilitySets/'' @
         availabilitySetName)\<rparr>,
      vm_NetworkProfile = Some \<lparr>np_NetworkInterfaces = Some
        [\<lparr>ref_ID = Some
            (''/subscriptions/sub/resourceGroups/rg/providers/Microsoft.Network/networkInterfaces/'' @
             name @ ''-nic''),
          ref_Primary = Some True\<rparr>]\<rparr>\<rparr>"

text \<open>
  A backend pool identifier of a load balancer, and an interface with one IP
  configuration that holds the given memberships.
\<close>

definition examplePoolID :: "string \<Rightarrow> string" where
  "examplePoolID lbName =
     ''/subscriptions/sub/resourceGroups/rg/providers/Microsoft.Network/loadBalancers/'' @
     lbName @ ''/backendAddressPools/kubernetes''"

definition exampleNIC :: "BackendAddressPool list option \<Rightarrow> Interface" where
  "exampleNIC pools =
     \<lparr>nic_Name = Some ''n1-nic'',
      nic_ProvisioningState = Some ''Succeeded'',
      nic_IPConfigurations = Some
        [\<lparr>ipc_Primary = Some True,
          ipc_PrivateIPAddress = Some ''10.240.0.4'',
          ipc_PrivateIPAddressVersion = ''IPv4'',
          ipc_LoadBalancerBackendAddressPools = pools\<rparr>]\<rparr>"

text \<open>The example cloud with the machine of every node and a given interface.\<close>

definition exampleCloudWith :: "Interface \<Rightarrow> Cloud" where
  "exampleCloudWith nic =
     exampleCloud
       \<lparr>GetVirtualMachineWithRetry := \<lambda>name. Inr (exampleVM name ''as-a''),
        InterfacesClient_Get := \<lambda>resourceGroup name. Inr nic\<rparr>"

subsection \<open>Priority allocator\<close>

text \<open>
  \<^verbatim>\<open>network.SecurityRule\<close>, the field the allocator reads: \<^verbatim>\<open>Priority *int32\<close>, here
  the integer value of the \<^verbatim>\<open>int32\<close>. The counter \<^verbatim>\<open>smallest\<close> stays in 500..4096, so
  its \<^verbatim>\<open>int32\<close> arithmetic never wraps.
\<close>

record SecurityRule =
  Priority :: "int option"

definition loadBalancerMinimumPriority :: int where
  "loadBalancerMinimumPriority = 500"

definition loadBalancerMaximumPriority :: int where
  "loadBalancerMaximumPriority = 4096"

text \<open>
  The inner loop \<^verbatim>\<open>for _, rule := range rules\<close>: \<open>Inr True\<close> when a rule holds the
  priority \<open>smallest\<close> (the \<^verbatim>\<open>continue outer\<close>), \<open>Inr False\<close> when the loop runs to its end.
\<close>

fun priorityTaken :: "int \<Rightarrow> SecurityRule list \<Rightarrow> error + bool" where
  "priorityTaken smallest [] = Inr False"
| "priorityTaken smallest (rule # rules) =
     (case Priority rule of
        None \<Rightarrow> Inl NilPointerDereference
      | Some p \<Rightarrow> if p = smallest then Inr True else priorityTaken smallest rules)"

function nextPriorityFrom :: "int \<Rightarrow> SecurityRule list \<Rightarrow> error + int" where
  "nextPriorityFrom smallest rules =
     (if smallest < loadBalancerMaximumPriority then
        (case priorityTaken smallest rules of
           Inl e \<Rightarrow> Inl e
         | Inr True \<Rightarrow> nextPriorityFrom (smallest + 1) rules
         | Inr False \<Rightarrow> Inr smallest)
      else Inl PriorityExhausted)"
  by pat_completeness auto
termination
  by (relation "measure (\<lambda>(smallest, rules). nat (loadBalancerMaximumPriority - smallest))") auto

declare nextPriorityFrom.simps [simp del]

definition getNextAvailablePriority :: "SecurityRule list \<Rightarrow> error + int" where
  "getNextAvailablePriority rules = nextPriorityFrom loadBalancerMinimumPriority rules"

text \<open>The priorities held by the rules of a list.\<close>

definition priorities :: "SecurityRule list \<Rightarrow> int set" where
  "priorities rules = {p. \<exists>r \<in> set rules. Priority r = Some p}"

subsection \<open>The priority allocator returns the lowest free priority\<close>

lemma priorityTaken_wf:
  "\<forall>r \<in> set rules. Priority r \<noteq> None \<Longrightarrow>
   priorityTaken s rules = Inr (s \<in> priorities rules)"
  by (induction rules) (auto simp: priorities_def split: option.splits)

lemma nextPriorityFrom_spec:
  assumes wf: "\<forall>r \<in> set rules. Priority r \<noteq> None"
  shows "nextPriorityFrom s rules =
           (if {s..<4096} \<subseteq> priorities rules then Inl PriorityExhausted
            else Inr (Min ({s..<4096} - priorities rules)))"
  using wf
proof (induction s rules rule: nextPriorityFrom.induct)
  case (1 smallest rules)
  note taken = priorityTaken_wf [OF "1.prems", of smallest]
  show ?case
  proof (cases "smallest < 4096")
    case False
    then show ?thesis
      by (simp add: nextPriorityFrom.simps [of smallest] loadBalancerMaximumPriority_def)
  next
    case lt: True
    have range: "{smallest..<4096} = insert smallest {smallest + 1..<4096}"
      using lt by auto
    show ?thesis
    proof (cases "smallest \<in> priorities rules")
      case True
      have diff: "{smallest..<4096} - priorities rules = {smallest + 1..<4096} - priorities rules"
        using True range by auto
      have sub: "{smallest..<4096} \<subseteq> priorities rules \<longleftrightarrow>
                 {smallest + 1..<4096} \<subseteq> priorities rules"
        using True range by auto
      have "nextPriorityFrom smallest rules = nextPriorityFrom (smallest + 1) rules"
        using lt True taken
        by (simp add: nextPriorityFrom.simps [of smallest] loadBalancerMaximumPriority_def)
      also have "\<dots> =
          (if {smallest + 1..<4096} \<subseteq> priorities rules then Inl PriorityExhausted
           else Inr (Min ({smallest + 1..<4096} - priorities rules)))"
        using "1.IH" [of True] lt True taken "1.prems"
        by (simp add: loadBalancerMaximumPriority_def)
      finally show ?thesis
        by (simp only: diff sub)
    next
      case False
      have "Min ({smallest..<4096} - priorities rules) = smallest"
        using False lt by (intro Min_eqI) auto
      moreover have "\<not> {smallest..<4096} \<subseteq> priorities rules"
        using False lt by auto
      moreover have "nextPriorityFrom smallest rules = Inr smallest"
        using lt False taken
        by (simp add: nextPriorityFrom.simps [of smallest] loadBalancerMaximumPriority_def)
      ultimately show ?thesis by simp
    qed
  qed
qed

text \<open>
  C3. For every list of security rules that each carry a priority,
  \<open>getNextAvailablePriority\<close> returns the smallest value of 500..4095 that no rule of the
  list holds, and fails with \<open>PriorityExhausted\<close> when every value of 500..4095 is held by
  some rule. In particular, when the rules hold exactly 500, 501 and 502 the result is 503.
\<close>

theorem getNextAvailablePriority_lowest_free:
  assumes "\<forall>r \<in> set rules. Priority r \<noteq> None"
  shows "getNextAvailablePriority rules =
           (if {500..<4096} \<subseteq> priorities rules then Inl PriorityExhausted
            else Inr (Min ({500..<4096} - priorities rules))) \<and>
         (priorities rules = {500, 501, 502} \<longrightarrow> getNextAvailablePriority rules = Inr 503)"
proof -
  have main: "getNextAvailablePriority rules =
           (if {500..<4096} \<subseteq> priorities rules then Inl PriorityExhausted
            else Inr (Min ({500..<4096} - priorities rules)))"
    unfolding getNextAvailablePriority_def loadBalancerMinimumPriority_def
    by (rule nextPriorityFrom_spec [OF assms])
  have "getNextAvailablePriority rules = Inr 503" if held: "priorities rules = {500, 501, 502}"
  proof -
    have "Min ({500..<4096} - priorities rules) = 503"
      unfolding held by (intro Min_eqI) auto
    moreover have "\<not> {500..<4096} \<subseteq> priorities rules"
    proof
      assume "{500..<4096} \<subseteq> priorities rules"
      moreover have "(503::int) \<in> {500..<4096}" by simp
      ultimately have "(503::int) \<in> {500, 501, 502}" unfolding held by blast
      then show False by simp
    qed
    ultimately show ?thesis using main by simp
  qed
  with main show ?thesis by blast
qed

theorem getNextAvailablePriority_lowest_free_witness:
  "getNextAvailablePriority
     [\<lparr>Priority = Some 500\<rparr>, \<lparr>Priority = Some 501\<rparr>, \<lparr>Priority = Some 502\<rparr>] = Inr 503"
proof -
  let ?rules = "[\<lparr>Priority = Some 500\<rparr>, \<lparr>Priority = Some 501\<rparr>, \<lparr>Priority = Some 502\<rparr>]"
  have wf: "\<forall>r \<in> set ?rules. Priority r \<noteq> None" by simp
  have held: "priorities ?rules = {500, 501, 502}"
    by (auto simp: priorities_def)
  from getNextAvailablePriority_lowest_free [OF wf] held show ?thesis by blast
qed

subsection \<open>The last segment of a machine identifier\<close>

lemma genSplit_nonempty: "genSplit c cs acc s \<noteq> []"
  by (induction c cs acc s rule: genSplit.induct) auto

lemma genSplit_no_sep: "c \<notin> set n \<Longrightarrow> genSplit c cs acc n = [acc @ n]"
  by (induction n arbitrary: acc) auto

lemma last_genSplit_char:
  "c \<notin> set n \<Longrightarrow> last (genSplit c [] acc (xs @ c # n)) = n"
  by (induction xs arbitrary: acc) (auto simp: genSplit_no_sep genSplit_nonempty)

lemma last_genSplit_sep_end:
  "s \<noteq> [] \<Longrightarrow> last (genSplit c [] acc s) = [] \<longleftrightarrow> last s = c"
proof (induction s arbitrary: acc)
  case Nil
  then show ?case by simp
next
  case (Cons x s)
  show ?case
  proof (cases "s = []")
    case True
    then show ?thesis by simp
  next
    case False
    from Cons.IH [OF False] False show ?thesis
      by (simp add: genSplit_nonempty)
  qed
qed

lemma last_genSplit_empty:
  "last (genSplit c [] [] s) = [] \<longleftrightarrow> s = [] \<or> last s = c"
  using last_genSplit_sep_end [of s c "[]"] by (cases "s = []") simp_all

lemma last_explode_nonempty: "s \<noteq> [] \<Longrightarrow> explode s \<noteq> [] \<and> last (explode s) \<noteq> []"
proof (induction s rule: explode.induct)
  case (1 s)
  show ?case
  proof (cases "drop (rune_width s) s = []")
    case True
    with "1.prems" show ?thesis by (simp add: explode.simps [of s])
  next
    case False
    with "1.prems" "1.IH" show ?thesis by (simp add: explode.simps [of s])
  qed
qed

lemma Split_nonempty_sep: "sep \<noteq> [] \<Longrightarrow> Split ID sep \<noteq> []"
  by (cases sep) (simp_all add: Split_def genSplit_nonempty)

text \<open>
  C6. For every subscription, resource group and machine name, where the name is not empty
  and has no \<open>/\<close>, the last \<open>/\<close>-separated segment of the identifier that
  \<open>getStandardMachineID\<close> builds is the name itself (the resource group is lower-cased in
  the identifier, the name is not touched). \<open>getLastSegment\<close> returns the error "resource
  name was missing" exactly when the trailing part of the split is empty, which for the
  separator \<open>/\<close> means that the identifier is empty or ends with \<open>/\<close>; otherwise, for a
  non-empty separator, it returns the trailing part.
\<close>

theorem getLastSegment_machineID:
  "(name \<noteq> [] \<and> CHR ''/'' \<notin> set name \<longrightarrow>
      getLastSegment (getStandardMachineID subscriptionID resourceGroup name) ''/'' = Inr name) \<and>
   (getLastSegment ID separator = Inl ResourceNameMissing \<longleftrightarrow>
      Split ID separator \<noteq> [] \<and> last (Split ID separator) = []) \<and>
   (getLastSegment ID ''/'' = Inl ResourceNameMissing \<longleftrightarrow> ID = [] \<or> last ID = CHR ''/'') \<and>
   (separator \<noteq> [] \<and> last (Split ID separator) \<noteq> [] \<longrightarrow>
      getLastSegment ID separator = Inr (last (Split ID separator)))"
proof -
  have seg: "getLastSegment ID' sep =
        (if Split ID' sep = [] then Inl IndexOutOfRange
         else if last (Split ID' sep) = [] then Inl ResourceNameMissing
         else Inr (last (Split ID' sep)))" for ID' sep
    by (simp add: getLastSegment_def Let_def last_conv_nth)
  have a: "getLastSegment (getStandardMachineID subscriptionID resourceGroup name) ''/'' = Inr name"
    if "name \<noteq> []" "CHR ''/'' \<notin> set name"
  proof -
    let ?pre = "''/subscriptions/'' @ subscriptionID @ ''/resourceGroups/'' @ ToLower resourceGroup @
     ''/providers/Microsoft.Compute/virtualMachines''"
    have id: "getStandardMachineID subscriptionID resourceGroup name = ?pre @ CHR ''/'' # name"
      by (simp add: getStandardMachineID_def)
    have "last (Split (?pre @ CHR ''/'' # name) ''/'') = name"
      unfolding Split_def using last_genSplit_char [OF that(2), of "[]" ?pre] by simp
    moreover have "Split (?pre @ CHR ''/'' # name) ''/'' \<noteq> []"
      by (rule Split_nonempty_sep) simp
    ultimately show ?thesis using that(1) unfolding id seg by simp
  qed
  have b: "getLastSegment ID separator = Inl ResourceNameMissing \<longleftrightarrow>
      Split ID separator \<noteq> [] \<and> last (Split ID separator) = []"
    by (simp add: seg)
  have c: "getLastSegment ID ''/'' = Inl ResourceNameMissing \<longleftrightarrow> ID = [] \<or> last ID = CHR ''/''"
    using last_genSplit_empty [of "CHR ''/''" ID]
    by (auto simp: seg Split_def genSplit_nonempty)
  have d: "getLastSegment ID separator = Inr (last (Split ID separator))"
    if "separator \<noteq> []" "last (Split ID separator) \<noteq> []"
    using that Split_nonempty_sep [of separator ID] by (simp add: seg)
  from a b c d show ?thesis by blast
qed

theorem getLastSegment_machineID_witness:
  "getLastSegment (getStandardMachineID ''sub'' ''RG-One'' ''vm-000001'') ''/'' = Inr ''vm-000001'' \<and>
   getStandardMachineID ''sub'' ''RG-One'' ''vm-000001'' =
     ''/subscriptions/sub/resourceGroups/rg-one/providers/Microsoft.Compute/virtualMachines/vm-000001'' \<and>
   getLastSegment ''/subscriptions/sub/'' ''/'' = Inl ResourceNameMissing \<and>
   getLastSegment ''a--b'' ''--'' = Inr ''b''"
proof -
  have 1: "getLastSegment (getStandardMachineID ''sub'' ''RG-One'' ''vm-000001'') ''/'' = Inr ''vm-000001''"
    using getLastSegment_machineID [of "''vm-000001''" "''sub''" "''RG-One''" "[]" "[]"] by simp
  have 2: "getStandardMachineID ''sub'' ''RG-One'' ''vm-000001'' =
     ''/subscriptions/sub/resourceGroups/rg-one/providers/Microsoft.Compute/virtualMachines/vm-000001''"
    by code_simp
  have 3: "getLastSegment ''/subscriptions/sub/'' ''/'' = Inl ResourceNameMissing"
    by code_simp
  have 4: "getLastSegment ''a--b'' ''--'' = Inr ''b''"
    by code_simp
  from 1 2 3 4 show ?thesis by blast
qed

subsection \<open>Case mapping and prefixes\<close>

lemma lower_upper_byte: "lower_byte (upper_byte c) = lower_byte c"
proof (cases "CHR ''a'' \<le> c \<and> c \<le> CHR ''z''")
  case True
  then have r: "97 \<le> (of_char c :: nat)" "(of_char c :: nat) \<le> 122"
    by (simp_all add: less_eq_char_def)
  have u: "upper_byte c = char_of (of_char c - (32::nat))"
    using True by (simp add: upper_byte_def)
  have v: "(of_char (upper_byte c) :: nat) = of_char c - 32"
    using r unfolding u by simp
  have "65 \<le> (of_char (upper_byte c) :: nat)" "(of_char (upper_byte c) :: nat) \<le> 90"
    using r unfolding v by linarith+
  then have "lower_byte (upper_byte c) = char_of (of_char (upper_byte c) + (32::nat))"
    by (simp add: lower_byte_def less_eq_char_def)
  also have "of_char (upper_byte c) + (32::nat) = of_char c"
    using r unfolding v by linarith
  finally have "lower_byte (upper_byte c) = c" by simp
  moreover have "lower_byte c = c"
    using r by (simp add: lower_byte_def less_eq_char_def)
  ultimately show ?thesis by simp
next
  case False
  then show ?thesis by (auto simp: upper_byte_def)
qed

lemma upper_lower_byte: "upper_byte (lower_byte c) = upper_byte c"
proof (cases "CHR ''A'' \<le> c \<and> c \<le> CHR ''Z''")
  case True
  then have r: "65 \<le> (of_char c :: nat)" "(of_char c :: nat) \<le> 90"
    by (simp_all add: less_eq_char_def)
  have u: "lower_byte c = char_of (of_char c + (32::nat))"
    using True by (simp add: lower_byte_def)
  have v: "(of_char (lower_byte c) :: nat) = of_char c + 32"
    using r unfolding u by simp
  have "97 \<le> (of_char (lower_byte c) :: nat)" "(of_char (lower_byte c) :: nat) \<le> 122"
    using r unfolding v by linarith+
  then have "upper_byte (lower_byte c) = char_of (of_char (lower_byte c) - (32::nat))"
    by (simp add: upper_byte_def less_eq_char_def)
  also have "of_char (lower_byte c) - (32::nat) = of_char c"
    unfolding v by simp
  finally have "upper_byte (lower_byte c) = c" by simp
  moreover have "upper_byte c = c"
    using r by (simp add: upper_byte_def less_eq_char_def)
  ultimately show ?thesis by simp
next
  case False
  then show ?thesis by (auto simp: lower_byte_def)
qed

lemma ToLower_ToUpper: "ToLower (ToUpper s) = ToLower s"
  by (induction s) (simp_all add: ToLower_def ToUpper_def lower_upper_byte)

lemma ToUpper_ToLower: "ToUpper (ToLower s) = ToUpper s"
  by (induction s) (simp_all add: ToLower_def ToUpper_def upper_lower_byte)

lemma ToUpper_eq_iff: "ToUpper s = ToUpper t \<longleftrightarrow> ToLower s = ToLower t"
proof
  assume "ToUpper s = ToUpper t"
  then have "ToLower (ToUpper s) = ToLower (ToUpper t)" by simp
  then show "ToLower s = ToLower t"
    by (simp only: ToLower_ToUpper)
next
  assume "ToLower s = ToLower t"
  then have "ToUpper (ToLower s) = ToUpper (ToLower t)" by simp
  then show "ToUpper s = ToUpper t"
    by (simp only: ToUpper_ToLower)
qed

lemma HasPrefix_ToUpper:
  "HasPrefix (ToUpper r) (ToUpper p) \<longleftrightarrow>
   length p \<le> length r \<and> EqualFold (take (length p) r) p"
proof -
  have "take (length p) (ToUpper r) = ToUpper (take (length p) r)"
    by (simp add: ToUpper_def take_map)
  then show ?thesis
    by (simp add: HasPrefix_def EqualFold_def ToUpper_eq_iff [symmetric]) (simp add: ToUpper_def)
qed

lemma HasPrefix_prefix: "HasPrefix s p \<longleftrightarrow> prefix p s"
  by (auto simp: HasPrefix_def prefix_def) (metis append_take_drop_id)

lemma EqualFold_refl: "EqualFold s s"
  by (simp add: EqualFold_def)

lemma EqualFold_length: "EqualFold s t \<Longrightarrow> length s = length t"
  unfolding EqualFold_def ToLower_def by (metis length_map)

subsection \<open>Backend pool name\<close>

text \<open>
  C8. For every cluster name and service, \<open>getBackendPoolName\<close> returns the cluster name
  exactly when \<^verbatim>\<open>utilnet.IsIPv6String\<close> rejects the service's cluster IP, and the cluster
  name followed by \<open>-IPv6\<close> when it accepts it: cluster \<open>foo\<close> gives \<open>foo\<close> for a cluster IP
  that is not IPv6 and \<open>foo-IPv6\<close> for the cluster IP \<open>2001:db8::1\<close>, which is IPv6. The
  predicate is a function of another package and stands as a parameter.
\<close>

theorem getBackendPoolName_family:
  "getBackendPoolName isIPv6String clusterName service =
     (if isIPv6String (svc_ClusterIP service) then clusterName @ ''-IPv6'' else clusterName) \<and>
   (getBackendPoolName isIPv6String clusterName service = clusterName \<longleftrightarrow>
      \<not> isIPv6String (svc_ClusterIP service)) \<and>
   (\<not> isIPv6String (svc_ClusterIP service) \<longrightarrow>
      getBackendPoolName isIPv6String ''foo'' service = ''foo'') \<and>
   (isIPv6String ''2001:db8::1'' \<longrightarrow>
      getBackendPoolName isIPv6String ''foo'' (service\<lparr>svc_ClusterIP := ''2001:db8::1''\<rparr>) = ''foo-IPv6'')"
  by (simp add: getBackendPoolName_def)

theorem getBackendPoolName_family_witness:
  "getBackendPoolName (IsIPv6String exampleCloud) ''foo'' exampleService = ''foo'' \<and>
   getBackendPoolName (IsIPv6String exampleCloud) ''foo''
     (exampleService\<lparr>svc_ClusterIP := ''2001:db8::1''\<rparr>) = ''foo-IPv6''"
  using getBackendPoolName_family [of "IsIPv6String exampleCloud" "''foo''" exampleService]
  by (simp add: exampleCloud_def exampleService_def)

subsection \<open>Ownership of rules and frontend IP configurations\<close>

text \<open>
  C9. For every service, rule name and frontend IP configuration: \<open>serviceOwnsRule\<close> holds
  exactly when the rule name starts with the service's rule prefix up to the case of the
  letters; \<open>serviceOwnsFrontendIP\<close>, for a configuration that has a name, holds exactly
  when the name starts with the same base name as it is written. The two checks differ in
  case sensitivity only: a rule name is owned exactly when some name equal to it up to
  case is owned as a frontend IP configuration name.
\<close>

theorem ownership_case_sensitivity:
  "(serviceOwnsRule az service rule \<longleftrightarrow>
      length (getRulePrefix az service) \<le> length rule \<and>
      EqualFold (take (length (getRulePrefix az service)) rule) (getRulePrefix az service)) \<and>
   (fip_Name fip = Some name \<longrightarrow>
      serviceOwnsFrontendIP az fip service = Inr (prefix (getRulePrefix az service) name)) \<and>
   (serviceOwnsRule az service rule \<longleftrightarrow>
      (\<exists>name. EqualFold name rule \<and>
         serviceOwnsFrontendIP az \<lparr>fip_Name = Some name\<rparr> service = Inr True))"
proof -
  let ?p = "getRulePrefix az service"
  have a: "serviceOwnsRule az service rule \<longleftrightarrow>
      length ?p \<le> length rule \<and> EqualFold (take (length ?p) rule) ?p"
    by (simp add: serviceOwnsRule_def HasPrefix_ToUpper Let_def)
  have b: "serviceOwnsFrontendIP az fip' service = Inr (prefix ?p name')"
    if "fip_Name fip' = Some name'" for fip' name'
    using that by (simp add: serviceOwnsFrontendIP_def getRulePrefix_def HasPrefix_prefix Let_def)
  have c: "serviceOwnsRule az service rule \<longleftrightarrow>
      (\<exists>name. EqualFold name rule \<and>
         serviceOwnsFrontendIP az \<lparr>fip_Name = Some name\<rparr> service = Inr True)"
  proof
    assume "serviceOwnsRule az service rule"
    with a have len: "length ?p \<le> length rule" and eq: "EqualFold (take (length ?p) rule) ?p"
      by simp_all
    let ?name = "?p @ drop (length ?p) rule"
    have "ToLower ?name = ToLower (take (length ?p) rule) @ ToLower (drop (length ?p) rule)"
      using eq by (simp add: EqualFold_def ToLower_def)
    also have "\<dots> = ToLower rule"
      unfolding ToLower_def by (simp flip: map_append)
    finally have "EqualFold ?name rule" by (simp add: EqualFold_def)
    moreover have "serviceOwnsFrontendIP az \<lparr>fip_Name = Some ?name\<rparr> service = Inr True"
      using b [of "\<lparr>fip_Name = Some ?name\<rparr>" ?name] by simp
    ultimately show "\<exists>name. EqualFold name rule \<and>
         serviceOwnsFrontendIP az \<lparr>fip_Name = Some name\<rparr> service = Inr True"
      by blast
  next
    assume "\<exists>name. EqualFold name rule \<and>
         serviceOwnsFrontendIP az \<lparr>fip_Name = Some name\<rparr> service = Inr True"
    then obtain name where eq: "EqualFold name rule"
      and own: "serviceOwnsFrontendIP az \<lparr>fip_Name = Some name\<rparr> service = Inr True"
      by blast
    from own b [of "\<lparr>fip_Name = Some name\<rparr>" name] have "prefix ?p name" by simp
    then obtain rest where name: "name = ?p @ rest" by (auto simp: prefix_def)
    have "ToLower rule = ToLower ?p @ ToLower rest"
      using eq unfolding name by (simp add: EqualFold_def ToLower_def)
    then have "take (length ?p) (ToLower rule) = ToLower ?p"
      by (simp add: ToLower_def)
    then have "EqualFold (take (length ?p) rule) ?p"
      by (simp add: EqualFold_def ToLower_def take_map)
    moreover have "length ?p \<le> length rule"
      using EqualFold_length [OF eq] unfolding name by simp
    ultimately show "serviceOwnsRule az service rule" using a by simp
  qed
  from a b [of fip name] c show ?thesis by blast
qed

theorem ownership_case_sensitivity_witness:
  "serviceOwnsRule exampleCloud exampleService ''A0123456789ABCDEF0123456789ABCDE-TCP-80'' \<and>
   serviceOwnsFrontendIP exampleCloud
     \<lparr>fip_Name = Some ''A0123456789ABCDEF0123456789ABCDE-TCP-80''\<rparr> exampleService = Inr False \<and>
   serviceOwnsFrontendIP exampleCloud
     \<lparr>fip_Name = Some ''a0123456789abcdef0123456789abcde-subnet''\<rparr> exampleService = Inr True"
proof -
  let ?rule = "''A0123456789ABCDEF0123456789ABCDE-TCP-80''"
  let ?fip = "\<lparr>fip_Name = Some ?rule\<rparr>"
  let ?fip2 = "\<lparr>fip_Name = Some ''a0123456789abcdef0123456789abcde-subnet''\<rparr>"
  have p: "getRulePrefix exampleCloud exampleService = ''a0123456789abcdef0123456789abcde''"
    by (simp add: getRulePrefix_def exampleCloud_def)
  have e: "EqualFold ''A0123456789ABCDEF0123456789ABCDE'' ''a0123456789abcdef0123456789abcde''"
    by code_simp
  have 1: "serviceOwnsRule exampleCloud exampleService ?rule"
    using ownership_case_sensitivity [of exampleCloud exampleService ?rule ?fip ?rule] e
    unfolding p by simp
  have 2: "serviceOwnsFrontendIP exampleCloud ?fip exampleService = Inr False"
    using ownership_case_sensitivity [of exampleCloud exampleService ?rule ?fip ?rule]
    unfolding p by simp
  have 3: "serviceOwnsFrontendIP exampleCloud ?fip2 exampleService = Inr True"
    using ownership_case_sensitivity [of exampleCloud exampleService ?rule ?fip2
        "''a0123456789abcdef0123456789abcde-subnet''"]
    unfolding p by simp
  from 1 2 3 show ?thesis by blast
qed

subsection \<open>Load balancer rule name\<close>

lemma slice_to_budget:
  "n < 80 \<Longrightarrow> 80 < n + length s + 1 \<Longrightarrow> slice_to s (int 80 - int n - 1) = Inr (take (79 - n) s)"
proof -
  assume a: "n < 80" "80 < n + length s + 1"
  have "nat (int 80 - int n - 1) = 79 - n" by linarith
  moreover have "\<not> (int 80 - int n - 1 < 0)" using a by linarith
  moreover have "\<not> (int (length s) < int 80 - int n - 1)" using a by linarith
  ultimately show ?thesis by (simp only: slice_to_def simp_thms if_False)
qed

lemma slice_to_negative:
  "80 \<le> n \<Longrightarrow> slice_to s (int 80 - int n - 1) = Inl SliceBoundsOutOfRange"
  by (simp add: slice_to_def)

lemma getLoadBalancerRuleName_cases:
  "getLoadBalancerRuleName az service protocol port =
     (case subnet az service of
        None \<Rightarrow> Inr (ruleNameWithoutSubnet az service protocol port)
      | Some s \<Rightarrow>
          if 80 \<le> length (ruleNameWithoutSubnet az service protocol port)
          then Inl SliceBoundsOutOfRange
          else Inr (getRulePrefix az service @ ''-'' @
                    take (79 - length (ruleNameWithoutSubnet az service protocol port)) s @
                    ''-'' @ protocol @ ''-'' @ format_d port))"
proof (cases "subnet az service")
  case None
  then show ?thesis
    by (simp add: getLoadBalancerRuleName_def ruleNameWithoutSubnet_def Let_def)
next
  case (Some s)
  let ?base = "ruleNameWithoutSubnet az service protocol port"
  let ?n = "length ?base"
  have unfold: "getLoadBalancerRuleName az service protocol port =
      (case (if 80 < ?n + length s + 1 then slice_to s (int 80 - int ?n - 1) else Inr s) of
         Inl e \<Rightarrow> Inl e
       | Inr seg \<Rightarrow> Inr (getRulePrefix az service @ ''-'' @ seg @ ''-'' @ protocol @ ''-'' @
                           format_d port))"
    using Some
    by (simp add: getLoadBalancerRuleName_def ruleNameWithoutSubnet_def Let_def
        loadBalancerRuleNameMaxLength_def)
  show ?thesis
  proof (cases "80 \<le> ?n")
    case True
    then have over: "80 < ?n + length s + 1" by simp
    have "getLoadBalancerRuleName az service protocol port = Inl SliceBoundsOutOfRange"
      by (simp only: unfold over if_True slice_to_negative [OF True] sum.case)
    with True Some show ?thesis by simp
  next
    case False
    then have lt: "?n < 80" by simp
    have "getLoadBalancerRuleName az service protocol port =
        Inr (getRulePrefix az service @ ''-'' @ take (79 - ?n) s @ ''-'' @ protocol @ ''-'' @
             format_d port)"
    proof (cases "80 < ?n + length s + 1")
      case True
      show ?thesis
        by (simp only: unfold True if_True slice_to_budget [OF lt True] sum.case)
    next
      case fits: False
      then have "take (79 - ?n) s = s" by simp
      then show ?thesis
        by (simp only: unfold fits if_False sum.case)
    qed
    with False Some show ?thesis by simp
  qed
qed

text \<open>
  C7. With no subnet the rule name is \<open>prefix-protocol-port\<close>. For a service with a subnet,
  every name that \<open>getLoadBalancerRuleName\<close> returns has at most 80 characters and is
  \<open>prefix-segment-protocol-port\<close> with the prefix, the protocol and the port in full and
  with \<open>segment\<close> an initial part of the subnet name; the segment is shorter than the
  subnet name only when the name has exactly 80 characters. A name is returned whenever
  \<open>prefix-protocol-port\<close> has fewer than 80 characters, and it is then the one with the
  first \<open>79 - len(prefix-protocol-port)\<close> characters of the subnet name.
\<close>

theorem getLoadBalancerRuleName_budget:
  "(subnet az service = None \<longrightarrow>
      getLoadBalancerRuleName az service protocol port =
        Inr (getRulePrefix az service @ ''-'' @ protocol @ ''-'' @ format_d port)) \<and>
   (subnet az service = Some s \<and> getLoadBalancerRuleName az service protocol port = Inr name \<longrightarrow>
      length name \<le> 80 \<and>
      (\<exists>segment. prefix segment s \<and>
         name = getRulePrefix az service @ ''-'' @ segment @ ''-'' @ protocol @ ''-'' @ format_d port \<and>
         (segment \<noteq> s \<longrightarrow> length name = 80))) \<and>
   (subnet az service = Some s \<and> length (ruleNameWithoutSubnet az service protocol port) < 80 \<longrightarrow>
      getLoadBalancerRuleName az service protocol port =
        Inr (getRulePrefix az service @ ''-'' @
             take (79 - length (ruleNameWithoutSubnet az service protocol port)) s @
             ''-'' @ protocol @ ''-'' @ format_d port))"
proof -
  let ?base = "ruleNameWithoutSubnet az service protocol port"
  let ?n = "length ?base"
  let ?name = "getRulePrefix az service @ ''-'' @ take (79 - ?n) s @ ''-'' @ protocol @ ''-'' @
               format_d port"
  have len: "length ?name = ?n + 1 + min (length s) (79 - ?n)"
    by (simp add: ruleNameWithoutSubnet_def)
  have a: "getLoadBalancerRuleName az service protocol port =
        Inr (getRulePrefix az service @ ''-'' @ protocol @ ''-'' @ format_d port)"
    if "subnet az service = None"
    using that by (simp add: getLoadBalancerRuleName_cases ruleNameWithoutSubnet_def)
  have c: "getLoadBalancerRuleName az service protocol port = Inr ?name"
    if "subnet az service = Some s" "?n < 80"
    using that by (simp add: getLoadBalancerRuleName_cases)
  have b: "length name \<le> 80 \<and>
      (\<exists>segment. prefix segment s \<and>
         name = getRulePrefix az service @ ''-'' @ segment @ ''-'' @ protocol @ ''-'' @ format_d port \<and>
         (segment \<noteq> s \<longrightarrow> length name = 80))"
    if sub: "subnet az service = Some s"
      and res: "getLoadBalancerRuleName az service protocol port = Inr name"
  proof -
    from sub res have lt: "?n < 80"
      by (simp add: getLoadBalancerRuleName_cases split: if_splits)
    from c [OF sub lt] res have name: "name = ?name" by simp
    have "length name \<le> 80" unfolding name len using lt by simp
    moreover have "prefix (take (79 - ?n) s) s" by (rule take_is_prefix)
    moreover have "length name = 80" if "take (79 - ?n) s \<noteq> s"
    proof -
      from that have "79 - ?n < length s" by (metis not_le_imp_less take_all)
      then show ?thesis unfolding name len using lt by simp
    qed
    ultimately show ?thesis using name by blast
  qed
  from a b c show ?thesis by blast
qed



theorem getLoadBalancerRuleName_budget_witness:
  "getLoadBalancerRuleName
     (exampleCloud\<lparr>subnet := \<lambda>service. Some ''subnet-0123456789-0123456789-0123456789-''\<rparr>)
     exampleService ''TCP'' 8080 =
   Inr ''a0123456789abcdef0123456789abcde-subnet-0123456789-0123456789-012345678-TCP-8080'' \<and>
   length ''a0123456789abcdef0123456789abcde-subnet-0123456789-0123456789-012345678-TCP-8080'' = 80"
proof -
  let ?az = "exampleCloud\<lparr>subnet := \<lambda>service. Some ''subnet-0123456789-0123456789-0123456789-''\<rparr>"
  have port: "format_d 8080 = ''8080''"
    by (simp add: format_d_def decimal.simps digit_char_def)
  have pre: "getRulePrefix ?az exampleService = ''a0123456789abcdef0123456789abcde''"
    by (simp add: getRulePrefix_def exampleCloud_def)
  have sub: "subnet ?az exampleService = Some ''subnet-0123456789-0123456789-0123456789-''"
    by simp
  have base: "length (ruleNameWithoutSubnet ?az exampleService ''TCP'' 8080) = 41"
    by (simp add: ruleNameWithoutSubnet_def pre port)
  note third = getLoadBalancerRuleName_budget
         [where az = ?az and service = exampleService and protocol = "''TCP''" and port = 8080
            and s = "''subnet-0123456789-0123456789-0123456789-''" and name = "[]",
          THEN conjunct2, THEN conjunct2]
  have small: "length (ruleNameWithoutSubnet ?az exampleService ''TCP'' 8080) < 80"
    unfolding base by simp
  have "getLoadBalancerRuleName ?az exampleService ''TCP'' 8080 =
        Inr (getRulePrefix ?az exampleService @ ''-'' @
             take (79 - length (ruleNameWithoutSubnet ?az exampleService ''TCP'' 8080))
               ''subnet-0123456789-0123456789-0123456789-'' @
             ''-'' @ ''TCP'' @ ''-'' @ format_d 8080)"
    by (rule third [THEN mp]) (rule conjI [OF sub small])
  also have "\<dots> =
     Inr ''a0123456789abcdef0123456789abcde-subnet-0123456789-0123456789-012345678-TCP-8080''"
    unfolding base pre port by simp
  finally show ?thesis by simp
qed

text \<open>
  C10. \<open>getLoadBalancerRuleName\<close> panics with a slice bound out of range exactly when the
  service has a subnet and \<open>prefix-protocol-port\<close> has 80 characters or more, and returns a
  name in every other case: for such a service the index \<open>80 - len(ruleName) - 1\<close> of the
  slice is negative.
\<close>

theorem getLoadBalancerRuleName_out_of_range:
  "(getLoadBalancerRuleName az service protocol port = Inl SliceBoundsOutOfRange \<longleftrightarrow>
      subnet az service \<noteq> None \<and> 80 \<le> length (ruleNameWithoutSubnet az service protocol port)) \<and>
   ((\<exists>name. getLoadBalancerRuleName az service protocol port = Inr name) \<longleftrightarrow>
      subnet az service = None \<or> length (ruleNameWithoutSubnet az service protocol port) < 80) \<and>
   (subnet az service = Some s \<and> 80 \<le> length (ruleNameWithoutSubnet az service protocol port) \<longrightarrow>
      int loadBalancerRuleNameMaxLength -
        int (length (ruleNameWithoutSubnet az service protocol port)) - 1 < 0 \<and>
      slice_to s (int loadBalancerRuleNameMaxLength -
        int (length (ruleNameWithoutSubnet az service protocol port)) - 1) =
        Inl SliceBoundsOutOfRange \<and>
      getLoadBalancerRuleName az service protocol port = Inl SliceBoundsOutOfRange)"
proof -
  let ?n = "length (ruleNameWithoutSubnet az service protocol port)"
  have a: "getLoadBalancerRuleName az service protocol port = Inl SliceBoundsOutOfRange \<longleftrightarrow>
      subnet az service \<noteq> None \<and> 80 \<le> ?n"
    by (simp add: getLoadBalancerRuleName_cases split: option.splits)
  have b: "(\<exists>name. getLoadBalancerRuleName az service protocol port = Inr name) \<longleftrightarrow>
      subnet az service = None \<or> ?n < 80"
    by (auto simp: getLoadBalancerRuleName_cases split: option.splits)
  have c: "int loadBalancerRuleNameMaxLength - int ?n - 1 < 0 \<and>
      slice_to s (int loadBalancerRuleNameMaxLength - int ?n - 1) = Inl SliceBoundsOutOfRange \<and>
      getLoadBalancerRuleName az service protocol port = Inl SliceBoundsOutOfRange"
    if "subnet az service = Some s" "80 \<le> ?n"
    using that a by (simp add: loadBalancerRuleNameMaxLength_def slice_to_def)
  from a b c show ?thesis by blast
qed



theorem getLoadBalancerRuleName_out_of_range_witness:
  "getLoadBalancerRuleName
     (exampleCloud\<lparr>GetLoadBalancerName := \<lambda>clusterName service. replicate 80 (CHR ''a''),
                   subnet := \<lambda>service. Some ''subnet-a''\<rparr>)
     exampleService ''TCP'' 80 = Inl SliceBoundsOutOfRange"
proof -
  let ?az = "exampleCloud\<lparr>GetLoadBalancerName := \<lambda>clusterName service. replicate 80 (CHR ''a''),
                   subnet := \<lambda>service. Some ''subnet-a''\<rparr>"
  have "80 \<le> length (ruleNameWithoutSubnet ?az exampleService ''TCP'' 80)"
    by (simp add: ruleNameWithoutSubnet_def getRulePrefix_def)
  moreover have "subnet ?az exampleService = Some ''subnet-a''" by simp
  ultimately show ?thesis
    using getLoadBalancerRuleName_out_of_range
      [where az = ?az and service = exampleService and protocol = "''TCP''" and port = 80
         and s = "''subnet-a''"]
    by blast
qed

subsection \<open>The VM-set resolver on the examples of the specification\<close>

text \<open>
  C4. The service names the groups \<open>as-a\<close> and \<open>as-c\<close>; the nodes \<open>n1\<close> and \<open>n2\<close> are
  backed by the availability sets \<open>as-a\<close> and \<open>as-b\<close>. The specification has \<open>GetVMSetNames\<close> fail
  with \<open>UnknownVMGroup\<close> naming \<open>as-c\<close>. The code returns both entries: \<open>as-a\<close> matches and
  sets \<^verbatim>\<open>found\<close>, which is declared before the loop over the entries and never reset, so
  the check \<^verbatim>\<open>if !found\<close> lets \<open>as-c\<close> pass.
\<close>

theorem GetVMSetNames_unknown_group_not_reported:
  "GetVMSetNames
     (exampleCloud
        \<lparr>ListVirtualMachines :=
           \<lambda>resourceGroup. Inr [exampleVM ''n1'' ''as-a'', exampleVM ''n2'' ''as-b''],
         getServiceLoadBalancerMode := \<lambda>service. (True, False, [''as-a'', ''as-c''])\<rparr>)
     exampleService [exampleNode ''n1'', exampleNode ''n2''] = Inr [''as-a'', ''as-c'']"
  by code_simp

text \<open>
  C5. The service is in auto mode; the nodes \<open>n1\<close> and \<open>n2\<close> are both backed by the
  availability set \<open>as-a\<close>. The specification has \<open>GetVMSetNames\<close> return the names without
  duplicates, here \<open>as-a\<close> once. The code returns it once for each node: the loop asks
  \<^verbatim>\<open>availabilitySetIDs.Has(asID)\<close> and nothing is ever inserted into that set.
\<close>

theorem GetVMSetNames_auto_keeps_duplicates:
  "GetVMSetNames
     (exampleCloud
        \<lparr>ListVirtualMachines :=
           \<lambda>resourceGroup. Inr [exampleVM ''n1'' ''as-a'', exampleVM ''n2'' ''as-a''],
         getServiceLoadBalancerMode := \<lambda>service. (True, True, [])\<rparr>)
     exampleService [exampleNode ''n1'', exampleNode ''n2''] = Inr [''as-a'', ''as-a'']"
  by code_simp

subsection \<open>The backend pool reconciler is idempotent\<close>

lemma backendPoolFound_prefix:
  "\<forall>p \<in> set before. pool_ID p \<noteq> None \<Longrightarrow> pool_ID pool = Some ID \<Longrightarrow> EqualFold t ID \<Longrightarrow>
   backendPoolFound t (before @ pool # after) = Inr True"
  by (induction before) (auto split: option.splits)

lemma backendPoolFound_False:
  "backendPoolFound t pools = Inr False \<Longrightarrow>
   \<forall>p \<in> set pools. \<exists>ID. pool_ID p = Some ID \<and> \<not> EqualFold t ID"
  by (induction pools) (auto split: option.splits if_splits)

lemma backendPoolFound_total:
  "\<forall>p \<in> set pools. pool_ID p \<noteq> None \<Longrightarrow>
   backendPoolFound t pools = Inr (\<exists>p \<in> set pools. \<exists>ID. pool_ID p = Some ID \<and> EqualFold t ID)"
  by (induction pools) (auto split: option.splits)

lemma backendPoolFound_appended:
  assumes "backendPoolFound t pools = Inr False"
  shows "backendPoolFound t (pools @ [\<lparr>pool_ID = Some t\<rparr>]) = Inr True"
proof -
  from backendPoolFound_False [OF assms] have "\<forall>p \<in> set pools. pool_ID p \<noteq> None" by auto
  then show ?thesis
    by (rule backendPoolFound_prefix) (simp_all add: EqualFold_def)
qed

lemma findPrimaryIPConfig_set:
  "findPrimaryIPConfig configs k = Inr (Some (i, c)) \<Longrightarrow>
   k \<le> i \<and> i - k < length configs \<and> configs ! (i - k) = c \<and>
   findPrimaryIPConfig
     (configs[i - k := c\<lparr>ipc_LoadBalancerBackendAddressPools := ps\<rparr>]) k =
     Inr (Some (i, c\<lparr>ipc_LoadBalancerBackendAddressPools := ps\<rparr>))"
proof (induction configs arbitrary: k)
  case Nil
  then show ?case by simp
next
  case (Cons ref refs)
  from Cons.prems obtain primary where p: "ipc_Primary ref = Some primary"
    by (auto split: option.splits)
  show ?case
  proof (cases primary)
    case True
    with p Cons.prems show ?thesis by simp
  next
    case False
    with p Cons.prems have rec: "findPrimaryIPConfig refs (k + 1) = Inr (Some (i, c))" by simp
    from Cons.IH [OF rec] have ih: "k + 1 \<le> i" "i - (k + 1) < length refs"
      "refs ! (i - (k + 1)) = c"
      "findPrimaryIPConfig
         (refs[i - (k + 1) := c\<lparr>ipc_LoadBalancerBackendAddressPools := ps\<rparr>])
         (k + 1) = Inr (Some (i, c\<lparr>ipc_LoadBalancerBackendAddressPools := ps\<rparr>))"
      by blast+
    from ih(1) obtain d where d: "i - k = Suc d" "i - (k + 1) = d"
      by (metis Suc_diff_le Suc_eq_plus1 diff_Suc_Suc)
    show ?thesis
      using ih p False unfolding d by simp
  qed
qed

lemma findIPConfigByVersion_set:
  "findIPConfigByVersion configs v k = Some (i, c) \<Longrightarrow>
   k \<le> i \<and> i - k < length configs \<and> configs ! (i - k) = c \<and>
   findIPConfigByVersion
     (configs[i - k := c\<lparr>ipc_LoadBalancerBackendAddressPools := ps\<rparr>]) v k =
     Some (i, c\<lparr>ipc_LoadBalancerBackendAddressPools := ps\<rparr>)"
proof (induction configs arbitrary: k)
  case Nil
  then show ?case by simp
next
  case (Cons ref refs)
  show ?case
  proof (cases "ipc_PrivateIPAddress ref \<noteq> None \<and> ipc_PrivateIPAddressVersion ref = v")
    case True
    with Cons.prems show ?thesis by simp
  next
    case False
    with Cons.prems have rec: "findIPConfigByVersion refs v (k + 1) = Some (i, c)" by auto
    from Cons.IH [OF rec] have ih: "k + 1 \<le> i" "i - (k + 1) < length refs"
      "refs ! (i - (k + 1)) = c"
      "findIPConfigByVersion
         (refs[i - (k + 1) := c\<lparr>ipc_LoadBalancerBackendAddressPools := ps\<rparr>])
         v (k + 1) = Some (i, c\<lparr>ipc_LoadBalancerBackendAddressPools := ps\<rparr>)"
      by blast+
    from ih(1) obtain d where d: "i - k = Suc d" "i - (k + 1) = d"
      by (metis Suc_diff_le Suc_eq_plus1 diff_Suc_Suc)
    show ?thesis
      using ih False unfolding d by auto
  qed
qed

lemma getPrimaryIPConfig_set:
  assumes "getPrimaryIPConfig nic = Inr (i, c)"
  shows "getPrimaryIPConfig (setBackendPools nic i ps) =
           Inr (i, c\<lparr>ipc_LoadBalancerBackendAddressPools := Some ps\<rparr>)"
proof -
  from assms obtain configs where cf: "nic_IPConfigurations nic = Some configs"
    by (auto simp: getPrimaryIPConfig_def split: option.splits)
  show ?thesis
  proof (cases "length configs = 1")
    case True
    with assms cf have "i = 0" "c = configs ! 0"
      by (simp_all add: getPrimaryIPConfig_def)
    with True cf show ?thesis
      by (simp add: getPrimaryIPConfig_def setBackendPools_def)
  next
    case False
    with assms cf have "findPrimaryIPConfig configs 0 = Inr (Some (i, c))"
      by (auto simp: getPrimaryIPConfig_def split: sum.splits option.splits)
    from findPrimaryIPConfig_set [OF this, of "Some ps"] False cf show ?thesis
      by (simp add: getPrimaryIPConfig_def setBackendPools_def)
  qed
qed

lemma getIPConfigByIPFamily_set:
  assumes "getIPConfigByIPFamily nic v6 = Inr (i, c)"
  shows "getIPConfigByIPFamily (setBackendPools nic i ps) v6 =
           Inr (i, c\<lparr>ipc_LoadBalancerBackendAddressPools := Some ps\<rparr>)"
proof -
  from assms obtain configs where cf: "nic_IPConfigurations nic = Some configs"
    by (auto simp: getIPConfigByIPFamily_def split: option.splits)
  with assms have
    "findIPConfigByVersion configs (if v6 then ''IPv6'' else ''IPv4'') 0 = Some (i, c)"
    by (auto simp: getIPConfigByIPFamily_def Let_def split: option.splits)
  from findIPConfigByVersion_set [OF this, of "Some ps"] cf show ?thesis
    by (simp add: getIPConfigByIPFamily_def setBackendPools_def Let_def)
qed

lemma primaryIPConfigOf_set:
  assumes "primaryIPConfigOf as service nic = Inr (i, c)"
    and "ipv6DualStackEnabled as' = ipv6DualStackEnabled as"
    and "IsIPv6String as' = IsIPv6String as"
  shows "primaryIPConfigOf as' service (setBackendPools nic i ps) =
           Inr (i, c\<lparr>ipc_LoadBalancerBackendAddressPools := Some ps\<rparr>)"
  using assms
  by (auto simp: primaryIPConfigOf_def Let_def getPrimaryIPConfig_set getIPConfigByIPFamily_set
      split: if_splits)

lemma EnsureHostInPool_found:
  assumes "getPrimaryInterfaceWithVMSet as (mapNodeNameToVMName as nodeName) vmSetName = Inr nic"
    and "nic_Name nic \<noteq> None"
    and "primaryIPConfigOf as service nic = Inr (i, primaryIPConfig)"
    and "backendPoolFound backendPoolID
           (case ipc_LoadBalancerBackendAddressPools primaryIPConfig of
              None \<Rightarrow> [] | Some pools \<Rightarrow> pools) = Inr True"
  shows "EnsureHostInPool as service nodeName backendPoolID vmSetName isInternal = ([], Inr ())"
  using assms by (auto simp: EnsureHostInPool_def Let_def)

lemma EnsureHostInPool_not_found:
  assumes fetch: "getPrimaryInterfaceWithVMSet as (mapNodeNameToVMName as nodeName) vmSetName = Inr nic"
    and state: "nic_ProvisioningState nic \<noteq> Some nicFailedState"
    and sel: "primaryIPConfigOf as service nic = Inr (i, primaryIPConfig)"
    and pools: "pools = (case ipc_LoadBalancerBackendAddressPools primaryIPConfig of
                          None \<Rightarrow> [] | Some pools \<Rightarrow> pools)"
  shows "EnsureHostInPool as service nodeName backendPoolID vmSetName isInternal =
      (case backendPoolFound backendPoolID pools of
         Inl err \<Rightarrow> ([], Inl err)
       | Inr True \<Rightarrow> ([], Inr ())
       | Inr False \<Rightarrow>
           (case (if useStandardLoadBalancer as \<and> length pools > 0
                  then isBackendPoolOnSameLB as backendPoolID (backendPoolIDs pools)
                  else Inr (True, [])) of
              Inl err \<Rightarrow> ([], Inl err)
            | Inr (isSameLB, oldLBName) \<Rightarrow>
                if \<not> isSameLB then ([], Inr ())
                else
                  (case nic_Name nic of
                     None \<Rightarrow> ([], Inl NilPointerDereference)
                   | Some nicName \<Rightarrow>
                       (case CreateOrUpdateInterface as service
                               (setBackendPools nic i (pools @ [\<lparr>pool_ID = Some backendPoolID\<rparr>])) of
                          Some err \<Rightarrow>
                            ([setBackendPools nic i (pools @ [\<lparr>pool_ID = Some backendPoolID\<rparr>])],
                             Inl err)
                        | None \<Rightarrow>
                            ([setBackendPools nic i (pools @ [\<lparr>pool_ID = Some backendPoolID\<rparr>])],
                             Inr ())))))"
  unfolding EnsureHostInPool_def Let_def fetch pools using state sel by simp

lemma EnsureHostInPool_written:
  assumes "EnsureHostInPool as service nodeName backendPoolID vmSetName isInternal =
             (written # others, result)"
  shows "\<exists>nic i primaryIPConfig.
           getPrimaryInterfaceWithVMSet as (mapNodeNameToVMName as nodeName) vmSetName = Inr nic \<and>
           nic_Name nic \<noteq> None \<and>
           nic_ProvisioningState nic \<noteq> Some nicFailedState \<and>
           primaryIPConfigOf as service nic = Inr (i, primaryIPConfig) \<and>
           backendPoolFound backendPoolID
             (case ipc_LoadBalancerBackendAddressPools primaryIPConfig of
                None \<Rightarrow> [] | Some pools \<Rightarrow> pools) = Inr False \<and>
           written = setBackendPools nic i
             ((case ipc_LoadBalancerBackendAddressPools primaryIPConfig of
                 None \<Rightarrow> [] | Some pools \<Rightarrow> pools) @ [\<lparr>pool_ID = Some backendPoolID\<rparr>])"
proof -
  from assms obtain nic where
    fetch: "getPrimaryInterfaceWithVMSet as (mapNodeNameToVMName as nodeName) vmSetName = Inr nic"
    by (cases "getPrimaryInterfaceWithVMSet as (mapNodeNameToVMName as nodeName) vmSetName")
       (auto simp: EnsureHostInPool_def Let_def split: if_splits)
  from assms fetch have state: "nic_ProvisioningState nic \<noteq> Some nicFailedState"
    by (auto simp: EnsureHostInPool_def Let_def split: option.splits)
  from assms fetch state obtain i primaryIPConfig where
    sel: "primaryIPConfigOf as service nic = Inr (i, primaryIPConfig)"
    by (cases "primaryIPConfigOf as service nic")
       (auto simp: EnsureHostInPool_def Let_def)
  let ?pools = "case ipc_LoadBalancerBackendAddressPools primaryIPConfig of
                  None \<Rightarrow> [] | Some pools \<Rightarrow> pools"
  note unfold = EnsureHostInPool_not_found [OF fetch state sel refl]
  from assms have found: "backendPoolFound backendPoolID ?pools = Inr False"
    unfolding unfold by (auto split: sum.splits bool.splits)
  from assms found have name: "nic_Name nic \<noteq> None"
    unfolding unfold by (auto split: sum.splits bool.splits prod.splits if_splits option.splits)
  from assms found have "written = setBackendPools nic i (?pools @ [\<lparr>pool_ID = Some backendPoolID\<rparr>])"
    unfolding unfold by (auto split: sum.splits bool.splits prod.splits if_splits option.splits)
  with fetch state sel found name show ?thesis by blast
qed

lemma setBackendPools_fields:
  "nic_Name (setBackendPools nic i ps) = nic_Name nic"
  "nic_ProvisioningState (setBackendPools nic i ps) = nic_ProvisioningState nic"
  by (simp_all add: setBackendPools_def)

text \<open>
  C1. When the target pool identifier is already among the memberships of the chosen IP
  configuration, up to case, \<open>EnsureHostInPool\<close> passes no interface to
  \<^verbatim>\<open>CreateOrUpdateInterface\<close>, so the memberships stay as they are, and returns \<^verbatim>\<open>nil\<close>.
  (The interface has a name, and the memberships before the matching one have
  identifiers: the loop dereferences them.) Hence a second call is a no-op: when a call
  has written an interface and returned \<^verbatim>\<open>nil\<close>, a call with the same arguments that
  fetches the interface as written updates nothing and returns \<^verbatim>\<open>nil\<close>.
\<close>

theorem EnsureHostInPool_idempotent:
  "(getPrimaryInterfaceWithVMSet as (mapNodeNameToVMName as nodeName) vmSetName = Inr nic \<and>
    nic_Name nic \<noteq> None \<and>
    primaryIPConfigOf as service nic = Inr (i, primaryIPConfig) \<and>
    ipc_LoadBalancerBackendAddressPools primaryIPConfig = Some (before @ pool # after) \<and>
    (\<forall>p \<in> set before. pool_ID p \<noteq> None) \<and>
    pool_ID pool = Some ID \<and> EqualFold backendPoolID ID \<longrightarrow>
    EnsureHostInPool as service nodeName backendPoolID vmSetName isInternal = ([], Inr ())) \<and>
   (EnsureHostInPool as service nodeName backendPoolID vmSetName isInternal = ([written], Inr ()) \<and>
    getPrimaryInterfaceWithVMSet as' (mapNodeNameToVMName as' nodeName) vmSetName = Inr written \<and>
    ipv6DualStackEnabled as' = ipv6DualStackEnabled as \<and>
    IsIPv6String as' = IsIPv6String as \<longrightarrow>
    EnsureHostInPool as' service nodeName backendPoolID vmSetName isInternal = ([], Inr ()))"
proof (intro conjI impI)
  assume a: "getPrimaryInterfaceWithVMSet as (mapNodeNameToVMName as nodeName) vmSetName = Inr nic \<and>
    nic_Name nic \<noteq> None \<and>
    primaryIPConfigOf as service nic = Inr (i, primaryIPConfig) \<and>
    ipc_LoadBalancerBackendAddressPools primaryIPConfig = Some (before @ pool # after) \<and>
    (\<forall>p \<in> set before. pool_ID p \<noteq> None) \<and>
    pool_ID pool = Some ID \<and> EqualFold backendPoolID ID"
  then have "backendPoolFound backendPoolID (before @ pool # after) = Inr True"
    by (intro backendPoolFound_prefix) blast+
  with a have "backendPoolFound backendPoolID
           (case ipc_LoadBalancerBackendAddressPools primaryIPConfig of
              None \<Rightarrow> [] | Some pools \<Rightarrow> pools) = Inr True"
    by simp
  with a show "EnsureHostInPool as service nodeName backendPoolID vmSetName isInternal = ([], Inr ())"
    by (intro EnsureHostInPool_found [where nic = nic and i = i and primaryIPConfig = primaryIPConfig])
       blast+
next
  assume b: "EnsureHostInPool as service nodeName backendPoolID vmSetName isInternal =
      ([written], Inr ()) \<and>
    getPrimaryInterfaceWithVMSet as' (mapNodeNameToVMName as' nodeName) vmSetName = Inr written \<and>
    ipv6DualStackEnabled as' = ipv6DualStackEnabled as \<and>
    IsIPv6String as' = IsIPv6String as"
  then have first: "EnsureHostInPool as service nodeName backendPoolID vmSetName isInternal =
      (written # [], Inr ())" by simp
  from EnsureHostInPool_written [OF first] obtain nic0 i0 c0 where
    name: "nic_Name nic0 \<noteq> None"
    and sel: "primaryIPConfigOf as service nic0 = Inr (i0, c0)"
    and found: "backendPoolFound backendPoolID
             (case ipc_LoadBalancerBackendAddressPools c0 of
                None \<Rightarrow> [] | Some pools \<Rightarrow> pools) = Inr False"
    and written: "written = setBackendPools nic0 i0
             ((case ipc_LoadBalancerBackendAddressPools c0 of
                 None \<Rightarrow> [] | Some pools \<Rightarrow> pools) @ [\<lparr>pool_ID = Some backendPoolID\<rparr>])"
    by blast
  let ?pools = "(case ipc_LoadBalancerBackendAddressPools c0 of
                 None \<Rightarrow> [] | Some pools \<Rightarrow> pools) @ [\<lparr>pool_ID = Some backendPoolID\<rparr>]"
  from b have flags: "ipv6DualStackEnabled as' = ipv6DualStackEnabled as"
    "IsIPv6String as' = IsIPv6String as" by blast+
  have sel': "primaryIPConfigOf as' service written =
      Inr (i0, c0\<lparr>ipc_LoadBalancerBackendAddressPools := Some ?pools\<rparr>)"
    unfolding written by (rule primaryIPConfigOf_set [OF sel flags])
  have found': "backendPoolFound backendPoolID
           (case ipc_LoadBalancerBackendAddressPools
                   (c0\<lparr>ipc_LoadBalancerBackendAddressPools := Some ?pools\<rparr>) of
              None \<Rightarrow> [] | Some pools \<Rightarrow> pools) = Inr True"
    using backendPoolFound_appended [OF found] by simp
  have name': "nic_Name written \<noteq> None"
    unfolding written using name by (simp add: setBackendPools_fields)
  from b have fetch': "getPrimaryInterfaceWithVMSet as' (mapNodeNameToVMName as' nodeName) vmSetName =
      Inr written" by blast
  show "EnsureHostInPool as' service nodeName backendPoolID vmSetName isInternal = ([], Inr ())"
    by (rule EnsureHostInPool_found [OF fetch' name' sel' found'])
qed

theorem EnsureHostInPool_idempotent_witness:
  "EnsureHostInPool (exampleCloudWith (exampleNIC None)) exampleService ''n1''
     (examplePoolID ''lb1'') ''as-a'' False =
     ([exampleNIC (Some [\<lparr>pool_ID = Some (examplePoolID ''lb1'')\<rparr>])], Inr ()) \<and>
   EnsureHostInPool
     (exampleCloudWith (exampleNIC (Some [\<lparr>pool_ID = Some (examplePoolID ''lb1'')\<rparr>])))
     exampleService ''n1'' (examplePoolID ''lb1'') ''as-a'' False = ([], Inr ()) \<and>
   EnsureHostInPool
     (exampleCloudWith (exampleNIC (Some [\<lparr>pool_ID = Some (examplePoolID ''LB1'')\<rparr>])))
     exampleService ''n1'' (examplePoolID ''lb1'') ''as-a'' False = ([], Inr ())"
proof -
  let ?written = "exampleNIC (Some [\<lparr>pool_ID = Some (examplePoolID ''lb1'')\<rparr>])"
  let ?as = "exampleCloudWith (exampleNIC None)"
  let ?as' = "exampleCloudWith ?written"
  let ?nic = "exampleNIC (Some [\<lparr>pool_ID = Some (examplePoolID ''LB1'')\<rparr>])"
  let ?as2 = "exampleCloudWith ?nic"
  have first: "EnsureHostInPool ?as exampleService ''n1'' (examplePoolID ''lb1'') ''as-a'' False =
      ([?written], Inr ())"
    by code_simp
  have fetch: "getPrimaryInterfaceWithVMSet ?as' (mapNodeNameToVMName ?as' ''n1'') ''as-a'' =
      Inr ?written"
    by code_simp
  have flags: "ipv6DualStackEnabled ?as' = ipv6DualStackEnabled ?as"
    "IsIPv6String ?as' = IsIPv6String ?as"
    by (simp_all add: exampleCloudWith_def)
  have second: "EnsureHostInPool ?as' exampleService ''n1'' (examplePoolID ''lb1'') ''as-a'' False =
      ([], Inr ())"
    using EnsureHostInPool_idempotent [where as = ?as and as' = ?as' and service = exampleService
        and nodeName = "''n1''" and backendPoolID = "examplePoolID ''lb1''" and vmSetName = "''as-a''"
        and isInternal = False and written = ?written, THEN conjunct2]
      first fetch flags by blast
  have fetch2: "getPrimaryInterfaceWithVMSet ?as2 (mapNodeNameToVMName ?as2 ''n1'') ''as-a'' =
      Inr ?nic"
    by code_simp
  have name2: "nic_Name ?nic \<noteq> None" by (simp add: exampleNIC_def)
  have sel2: "primaryIPConfigOf ?as2 exampleService ?nic =
      Inr (0, \<lparr>ipc_Primary = Some True, ipc_PrivateIPAddress = Some ''10.240.0.4'',
                ipc_PrivateIPAddressVersion = ''IPv4'',
                ipc_LoadBalancerBackendAddressPools =
                  Some ([] @ \<lparr>pool_ID = Some (examplePoolID ''LB1'')\<rparr> # [])\<rparr>)"
    by code_simp
  have fold2: "EqualFold (examplePoolID ''lb1'') (examplePoolID ''LB1'')"
    by code_simp
  have third: "EnsureHostInPool ?as2 exampleService ''n1'' (examplePoolID ''lb1'') ''as-a'' False =
      ([], Inr ())"
    using EnsureHostInPool_idempotent [where as = ?as2 and service = exampleService and nic = ?nic and i = 0
        and nodeName = "''n1''" and backendPoolID = "examplePoolID ''lb1''" and vmSetName = "''as-a''"
        and isInternal = False and before = "[]" and after = "[]"
        and pool = "\<lparr>pool_ID = Some (examplePoolID ''LB1'')\<rparr>" and ID = "examplePoolID ''LB1''"
        and primaryIPConfig = "\<lparr>ipc_Primary = Some True, ipc_PrivateIPAddress = Some ''10.240.0.4'',
                ipc_PrivateIPAddressVersion = ''IPv4'',
                ipc_LoadBalancerBackendAddressPools =
                  Some ([] @ \<lparr>pool_ID = Some (examplePoolID ''LB1'')\<rparr> # [])\<rparr>", THEN conjunct1]
      fetch2 name2 sel2 fold2 by simp
  from first second third show ?thesis by blast
qed

subsection \<open>One load balancer for each interface under the standard SKU\<close>

lemma existingPoolsOnLB_differs:
  "\<forall>ID \<in> set IDs. backendPoolLoadBalancer ID \<noteq> None \<Longrightarrow>
   \<exists>ID \<in> set IDs. backendPoolLoadBalancer ID \<noteq> Some newLBName \<Longrightarrow>
   \<exists>oldLBName. existingPoolsOnLB newLBName IDs = Inr (False, oldLBName)"
  by (induction IDs) (auto split: option.splits)

lemma set_backendPoolIDs:
  "set (backendPoolIDs pools) = {ID. \<exists>p \<in> set pools. pool_ID p = Some ID}"
  by (induction pools) (auto split: option.splits)

text \<open>
  C2. Under the standard SKU, when the chosen IP configuration holds a membership whose
  parent load balancer is not the parent load balancer of the target pool,
  \<open>EnsureHostInPool\<close> skips the node: it passes no interface to
  \<^verbatim>\<open>CreateOrUpdateInterface\<close> and returns \<^verbatim>\<open>nil\<close>. (The interface has a name, every
  membership has an identifier that names its load balancer, and
  \<^verbatim>\<open>isBackendPoolOnSameLB\<close> is the function of the specification.)
\<close>

theorem EnsureHostInPool_standard_exclusive:
  "useStandardLoadBalancer as \<and> isBackendPoolOnSameLB as = isBackendPoolOnSameLB_spec \<and>
   getPrimaryInterfaceWithVMSet as (mapNodeNameToVMName as nodeName) vmSetName = Inr nic \<and>
   nic_Name nic \<noteq> None \<and>
   primaryIPConfigOf as service nic = Inr (i, primaryIPConfig) \<and>
   ipc_LoadBalancerBackendAddressPools primaryIPConfig = Some pools \<and>
   (\<forall>p \<in> set pools. \<exists>ID. pool_ID p = Some ID \<and> backendPoolLoadBalancer ID \<noteq> None) \<and>
   backendPoolLoadBalancer backendPoolID = Some newLBName \<and>
   pool \<in> set pools \<and> pool_ID pool = Some ID \<and>
   backendPoolLoadBalancer ID = Some oldLBName \<and> oldLBName \<noteq> newLBName \<longrightarrow>
   EnsureHostInPool as service nodeName backendPoolID vmSetName isInternal = ([], Inr ())"
proof
  assume a: "useStandardLoadBalancer as \<and> isBackendPoolOnSameLB as = isBackendPoolOnSameLB_spec \<and>
   getPrimaryInterfaceWithVMSet as (mapNodeNameToVMName as nodeName) vmSetName = Inr nic \<and>
   nic_Name nic \<noteq> None \<and>
   primaryIPConfigOf as service nic = Inr (i, primaryIPConfig) \<and>
   ipc_LoadBalancerBackendAddressPools primaryIPConfig = Some pools \<and>
   (\<forall>p \<in> set pools. \<exists>ID. pool_ID p = Some ID \<and> backendPoolLoadBalancer ID \<noteq> None) \<and>
   backendPoolLoadBalancer backendPoolID = Some newLBName \<and>
   pool \<in> set pools \<and> pool_ID pool = Some ID \<and>
   backendPoolLoadBalancer ID = Some oldLBName \<and> oldLBName \<noteq> newLBName"
  then have std: "useStandardLoadBalancer as"
    and helper: "isBackendPoolOnSameLB as = isBackendPoolOnSameLB_spec"
    and fetch: "getPrimaryInterfaceWithVMSet as (mapNodeNameToVMName as nodeName) vmSetName = Inr nic"
    and name: "nic_Name nic \<noteq> None"
    and sel: "primaryIPConfigOf as service nic = Inr (i, primaryIPConfig)"
    and pools: "ipc_LoadBalancerBackendAddressPools primaryIPConfig = Some pools"
    and wf: "\<forall>p \<in> set pools. \<exists>ID. pool_ID p = Some ID \<and> backendPoolLoadBalancer ID \<noteq> None"
    and new: "backendPoolLoadBalancer backendPoolID = Some newLBName"
    and other: "pool \<in> set pools" "pool_ID pool = Some ID"
      "backendPoolLoadBalancer ID = Some oldLBName" "oldLBName \<noteq> newLBName"
    by blast+
  have pools': "pools = (case ipc_LoadBalancerBackendAddressPools primaryIPConfig of
                          None \<Rightarrow> [] | Some pools \<Rightarrow> pools)"
    using pools by simp
  show "EnsureHostInPool as service nodeName backendPoolID vmSetName isInternal = ([], Inr ())"
  proof (cases "nic_ProvisioningState nic = Some nicFailedState")
    case True
    with fetch name show ?thesis
      by (auto simp: EnsureHostInPool_def Let_def)
  next
    case False
    note unfold = EnsureHostInPool_not_found [OF fetch False sel pools']
    from wf have "\<forall>p \<in> set pools. pool_ID p \<noteq> None" by auto
    from backendPoolFound_total [OF this]
    obtain found where found: "backendPoolFound backendPoolID pools = Inr found" by blast
    have nonempty: "length pools > 0" using other(1) by (cases pools) auto
    have "\<forall>ID \<in> set (backendPoolIDs pools). backendPoolLoadBalancer ID \<noteq> None"
      using wf by (auto simp: set_backendPoolIDs)
    moreover have "\<exists>ID \<in> set (backendPoolIDs pools). backendPoolLoadBalancer ID \<noteq> Some newLBName"
      using other by (auto simp: set_backendPoolIDs)
    ultimately obtain old where
      "existingPoolsOnLB newLBName (backendPoolIDs pools) = Inr (False, old)"
      using existingPoolsOnLB_differs by blast
    then have same: "isBackendPoolOnSameLB as backendPoolID (backendPoolIDs pools) = Inr (False, old)"
      using new unfolding helper by (simp add: isBackendPoolOnSameLB_spec_def)
    show ?thesis
      unfolding unfold found using std nonempty same by (cases found) simp_all
  qed
qed

theorem EnsureHostInPool_standard_exclusive_witness:
  "useStandardLoadBalancer
     (exampleCloudWith (exampleNIC (Some [\<lparr>pool_ID = Some (examplePoolID ''lb1'')\<rparr>]))) \<and>
   EnsureHostInPool
     (exampleCloudWith (exampleNIC (Some [\<lparr>pool_ID = Some (examplePoolID ''lb1'')\<rparr>])))
     exampleService ''n1'' (examplePoolID ''lb2'') ''as-a'' False = ([], Inr ())"
proof -
  let ?nic = "exampleNIC (Some [\<lparr>pool_ID = Some (examplePoolID ''lb1'')\<rparr>])"
  let ?as = "exampleCloudWith ?nic"
  let ?config = "\<lparr>ipc_Primary = Some True, ipc_PrivateIPAddress = Some ''10.240.0.4'',
                ipc_PrivateIPAddressVersion = ''IPv4'',
                ipc_LoadBalancerBackendAddressPools =
                  Some [\<lparr>pool_ID = Some (examplePoolID ''lb1'')\<rparr>]\<rparr>"
  have std: "useStandardLoadBalancer ?as"
    by (simp add: exampleCloudWith_def exampleCloud_def)
  have helper: "isBackendPoolOnSameLB ?as = isBackendPoolOnSameLB_spec"
    by (simp add: exampleCloudWith_def exampleCloud_def)
  have fetch: "getPrimaryInterfaceWithVMSet ?as (mapNodeNameToVMName ?as ''n1'') ''as-a'' = Inr ?nic"
    by code_simp
  have name: "nic_Name ?nic \<noteq> None" by (simp add: exampleNIC_def)
  have sel: "primaryIPConfigOf ?as exampleService ?nic = Inr (0, ?config)"
    by code_simp
  have lb1: "backendPoolLoadBalancer (examplePoolID ''lb1'') = Some ''lb1''"
    by code_simp
  have lb2: "backendPoolLoadBalancer (examplePoolID ''lb2'') = Some ''lb2''"
    by code_simp
  have "EnsureHostInPool ?as exampleService ''n1'' (examplePoolID ''lb2'') ''as-a'' False =
      ([], Inr ())"
    using EnsureHostInPool_standard_exclusive
      [where as = ?as and service = exampleService and nic = ?nic and i = 0
        and nodeName = "''n1''" and backendPoolID = "examplePoolID ''lb2''" and vmSetName = "''as-a''"
        and isInternal = False and primaryIPConfig = ?config
        and pools = "[\<lparr>pool_ID = Some (examplePoolID ''lb1'')\<rparr>]"
        and pool = "\<lparr>pool_ID = Some (examplePoolID ''lb1'')\<rparr>" and ID = "examplePoolID ''lb1''"
        and newLBName = "''lb2''" and oldLBName = "''lb1''"]
      std helper fetch name sel lb1 lb2 by simp
  with std show ?thesis by blast
qed

end
